theory Spec2Isabelle
  imports Main "HOL-Library.Word"
begin

section \<open>The evdev calibrator of xinput\_calibrator (src/calibrator/Evdev.cpp)\<close>

text \<open>
  A shallow embedding of \<^verbatim>\<open>CalibratorEvdev\<close>. Every member function becomes a HOL function
  that returns its C++ return value together with the list of events it causes, in order:
  the Xlib calls it makes and the lines it prints. The X server, the build configuration
  and the host are an environment (\<open>xenv\<close>) the functions only read.

  Machine model: LP64, little-endian (x86-64 Linux): \<^verbatim>\<open>int\<close> has 32 bits, \<^verbatim>\<open>short\<close> 16,
  \<^verbatim>\<open>long\<close>, \<^verbatim>\<open>unsigned long\<close>, \<^verbatim>\<open>Atom\<close> and \<^verbatim>\<open>XID\<close> 64, \<^verbatim>\<open>sizeof(long)\<close> is 8.
\<close>

subsection \<open>Machine types and printing\<close>

type_synonym cint = "32 word"
type_synonym cshort = "16 word"
type_synonym clong = "64 word"
type_synonym byte = "8 word"

definition sizeof_long :: nat where
  "sizeof_long = 8"

abbreviation nl :: string where "nl \<equiv> [CHR 0x0A]"
abbreviation tab :: string where "tab \<equiv> [CHR 0x09]"
abbreviation dq :: string where "dq \<equiv> [CHR 0x22]"
abbreviation sq :: string where "sq \<equiv> [CHR 0x27]"

text \<open>
  \<^verbatim>\<open>printf("%d", v)\<close> for an \<^verbatim>\<open>int\<close>: the decimal digits are produced from the least
  significant one, in front of what is already there; a negative value gets a minus sign.
  (\<open>digit_char\<close> is only ever applied to a number below ten.)
\<close>

definition digit_char :: "nat \<Rightarrow> char" where
  "digit_char d = ''0123456789'' ! d"

fun digits_acc :: "nat \<Rightarrow> string \<Rightarrow> string" where
  "digits_acc n acc =
     (if 10 \<le> n then digits_acc (n div 10) (digit_char (n mod 10) # acc)
      else digit_char n # acc)"

declare digits_acc.simps [simp del]

definition pd :: "cint \<Rightarrow> string" where
  "pd v = (let i = sint v in if 0 \<le> i then digits_acc (nat i) [] else CHR ''-'' # digits_acc (nat (- i)) [])"

text \<open>A C++ \<^verbatim>\<open>bool\<close> converted to \<^verbatim>\<open>int\<close>.\<close>

definition int_of_bool :: "bool \<Rightarrow> cint" where
  "int_of_bool b = (if b then 1 else 0)"

text \<open>
  \<^verbatim>\<open>isdigit\<close> on an ASCII character, and the loop both \<^verbatim>\<open>xinput_parse_atom\<close> and
  \<^verbatim>\<open>xinput_find_device_info\<close> run over the name: it stops with \<open>False\<close> at the first
  character that is not a digit (the empty name passes).
\<close>

definition isdigit :: "char \<Rightarrow> bool" where
  "isdigit c = (48 \<le> (of_char c :: nat) \<and> (of_char c :: nat) \<le> 57)"

fun all_digits :: "string \<Rightarrow> bool" where
  "all_digits [] = True"
| "all_digits (c # cs) = (if \<not> isdigit c then False else all_digits cs)"

text \<open>
  \<^verbatim>\<open>atoi\<close> of the C library, on the strings this file passes to it (digits only).
  glibc computes \<^verbatim>\<open>(int) strtol(s, NULL, 10)\<close>: the decimal value, saturated at
  \<^verbatim>\<open>LONG_MAX\<close>, truncated to 32 bits.
\<close>

definition decimal :: "string \<Rightarrow> int" where
  "decimal s = foldl (\<lambda>a c. 10 * a + (of_char c - 48)) 0 s"

definition atoi :: "string \<Rightarrow> cint" where
  "atoi s = ucast (word_of_int (min (decimal s) (2 ^ 63 - 1)) :: clong)"

subsection \<open>Calibration data (Calibrator.hpp, not among the sources)\<close>

text \<open>
  Modelled from the spec: \<^verbatim>\<open>AxisInfo\<close>, \<^verbatim>\<open>XYinfo\<close> and \<^verbatim>\<open>OutputType\<close> are declared in
  Calibrator.hpp, which is missing. The spec's data model gives an axis range two
  integers and a calibration value two ranges and a boolean swap flag; Evdev.cpp reads
  and writes exactly these fields. \<open>OUTYPE_OTHER\<close> stands for any enumerator that the
  \<^verbatim>\<open>switch\<close> of \<^verbatim>\<open>finish_data\<close> does not name (its \<^verbatim>\<open>default\<close> branch).
\<close>

record AxisInfo =
  minv :: cint
  maxv :: cint

record XYinfo =
  x :: AxisInfo
  y :: AxisInfo
  swap_xy :: bool

datatype OutputType = OUTYPE_AUTO | OUTYPE_XORGCONFD | OUTYPE_HAL | OUTYPE_XINPUT | OUTYPE_OTHER nat

text \<open>
  The members of the \<^verbatim>\<open>Calibrator\<close> base class that Evdev.cpp uses. The display and
  device handles are not fields here: what is open is read off the event trace.
\<close>

record Calibrator =
  device_name :: string
  old_axys :: XYinfo
  orig_axys :: XYinfo
  output_type :: OutputType
  verbose :: bool

subsection \<open>The environment: X server, build and host\<close>

text \<open>An entry of \<^verbatim>\<open>XListInputDevices\<close>: the fields \<^verbatim>\<open>id\<close>, \<^verbatim>\<open>name\<close>, \<^verbatim>\<open>use\<close>.\<close>

record XDeviceInfo =
  dev_id :: clong
  dev_name :: string
  dev_use :: int

text \<open>
  What \<^verbatim>\<open>XGetDeviceProperty\<close> hands back on success: the type atom and the buffer, which
  Xlib fills with \<^verbatim>\<open>char\<close>s for format 8, \<^verbatim>\<open>short\<close>s for format 16 and \<^verbatim>\<open>long\<close>s for
  format 32 (\<open>Absent\<close>: the property does not exist; format 0 and no items).
\<close>

datatype prop_data = Absent | Chars "byte list" | Shorts "cshort list" | Longs "clong list"

record prop_reply =
  act_type :: clong
  prop_data :: prop_data

fun act_format :: "prop_reply \<Rightarrow> int" where
  "act_format r = (case prop_data r of Absent \<Rightarrow> 0 | Chars _ \<Rightarrow> 8 | Shorts _ \<Rightarrow> 16 | Longs _ \<Rightarrow> 32)"

fun nitems :: "prop_reply \<Rightarrow> nat" where
  "nitems r = (case prop_data r of Absent \<Rightarrow> 0 | Chars bs \<Rightarrow> length bs
     | Shorts ss \<Rightarrow> length ss | Longs ls \<Rightarrow> length ls)"

text \<open>Constants of the X headers.\<close>

definition XA_INTEGER :: clong where "XA_INTEGER = 19"
definition None_atom :: clong where "None_atom = 0"
definition IsXExtensionDevice :: int where "IsXExtensionDevice = 2"

text \<open>
  The environment. \<open>HAVE_XI_PROP\<close> is the preprocessor symbol of the build.
  \<open>intern_atom\<close> is the answer of \<^verbatim>\<open>XInternAtom(display, name, False)\<close> (\<open>0\<close> is \<^verbatim>\<open>None\<close>),
  \<open>device_property\<close> the answer of the server to a property read of the opened device
  (\<open>None\<close>: the call does not return \<^verbatim>\<open>Success\<close>), by property atom and requested length.
  \<open>sysfs_name\<close> and \<open>xorgconfd_support\<close> are the results of \<^verbatim>\<open>get_sysfs_name()\<close>
  (\<open>None\<close>: \<^verbatim>\<open>NULL\<close>) and \<^verbatim>\<open>has_xorgconfd_support()\<close> of the base class.
\<close>

record xenv =
  HAVE_XI_PROP :: bool
  display_ok :: bool
  input_devices :: "XDeviceInfo list"
  device_ok :: "clong \<Rightarrow> bool"
  intern_atom :: "string \<Rightarrow> clong"
  device_property :: "clong \<Rightarrow> nat \<Rightarrow> prop_reply option"
  sysfs_name :: "string option"
  xorgconfd_support :: bool

text \<open>
  Events, in program order. \<open>Set_int_prop name format argv\<close> marks the entry of
  \<^verbatim>\<open>xinput_do_set_int_prop\<close>: one attempt to write a property, whatever becomes of it.
  \<open>XOpenDisplay\<close> and \<open>XOpenDevice\<close> carry whether a handle was returned.
  \<open>XChangeDeviceProperty\<close> carries the property atom, the format, the buffer passed and
  the number of elements. Memory management (\<^verbatim>\<open>calloc\<close>, \<^verbatim>\<open>free\<close>, \<^verbatim>\<open>XFree\<close>) is not traced.
\<close>

datatype event =
    Stdout string
  | Stderr string
  | XOpenDisplay bool
  | XCloseDisplay
  | XListInputDevices
  | XOpenDevice clong bool
  | XCloseDevice
  | XInternAtom string
  | XGetDeviceProperty clong nat nat
  | XChangeDeviceProperty clong int "byte list" nat
  | XSync
  | Set_int_prop string int "cint list"

text \<open>
  \<^verbatim>\<open>XGetDeviceProperty(display, dev, property, offset, length, ...)\<close>: the atom \<^verbatim>\<open>None\<close>
  names no property (the server answers \<^verbatim>\<open>BadAtom\<close>), so the call fails on it.
\<close>

definition get_device_property :: "xenv \<Rightarrow> clong \<Rightarrow> nat \<Rightarrow> prop_reply option" where
  "get_device_property env property len =
     (if property = None_atom then None else device_property env property len)"

subsection \<open>xinput\_parse\_atom\<close>

definition xinput_parse_atom :: "xenv \<Rightarrow> string \<Rightarrow> clong \<times> event list" where
  "xinput_parse_atom env name =
     (if all_digits name then (scast (atoi name), [])
      else (intern_atom env name, [XInternAtom name]))"

subsection \<open>xinput\_do\_set\_int\_prop\<close>

text \<open>
  The union \<^verbatim>\<open>data\<close> views one buffer of \<^verbatim>\<open>argc * sizeof(long)\<close> zeroed bytes as
  \<^verbatim>\<open>unsigned char\<close>s, \<^verbatim>\<open>short\<close>s or \<^verbatim>\<open>long\<close>s: element \<open>i\<close> of a view of width \<open>w\<close>
  bytes lies at the bytes \<open>w * i, ..., w * i + w - 1\<close>, least significant byte first.
  \<open>write_bytes\<close> puts bytes into the buffer from an offset on.
\<close>

fun write_bytes :: "byte list \<Rightarrow> nat \<Rightarrow> byte list \<Rightarrow> byte list" where
  "write_bytes buf off [] = buf"
| "write_bytes buf off (b # bs) = write_bytes (buf[off := b]) (Suc off) bs"

definition le_bytes :: "nat \<Rightarrow> 'a::len word \<Rightarrow> byte list" where
  "le_bytes n w = map (\<lambda>k. ucast (drop_bit (8 * k) w)) [0..<n]"

text \<open>
  \<^verbatim>\<open>data.c[i] = v\<close>, \<^verbatim>\<open>data.s[i] = v\<close> and \<^verbatim>\<open>data.l[i] = v\<close> for an \<^verbatim>\<open>int v\<close>: the value is
  converted to the element type (truncated to 8 or 16 bits, sign-extended to 64) and
  stored.
\<close>

definition store_c :: "byte list \<Rightarrow> nat \<Rightarrow> cint \<Rightarrow> byte list" where
  "store_c buf i v = write_bytes buf i (le_bytes 1 (ucast v :: byte))"

definition store_s :: "byte list \<Rightarrow> nat \<Rightarrow> cint \<Rightarrow> byte list" where
  "store_s buf i v = write_bytes buf (2 * i) (le_bytes 2 (ucast v :: cshort))"

definition store_l :: "byte list \<Rightarrow> nat \<Rightarrow> cint \<Rightarrow> byte list" where
  "store_l buf i v = write_bytes buf (sizeof_long * i) (le_bytes sizeof_long (scast v :: clong))"

text \<open>
  The loop \<^verbatim>\<open>for (i = 0; i < argc; i++) switch (format) ...\<close>, from index \<open>i\<close> over the
  remaining arguments. \<^verbatim>\<open>case 8\<close> has no \<^verbatim>\<open>break\<close>: it runs into \<^verbatim>\<open>case 16\<close>.
  \<open>None\<close> is the \<^verbatim>\<open>default\<close> branch, which returns from the function.
\<close>

fun fill :: "int \<Rightarrow> nat \<Rightarrow> cint list \<Rightarrow> byte list \<Rightarrow> byte list option" where
  "fill format i [] buf = Some buf"
| "fill format i (a # as) buf =
     (if format = 8 then fill format (Suc i) as (store_s (store_c buf i a) i a)
      else if format = 16 then fill format (Suc i) as (store_s buf i a)
      else if format = 32 then fill format (Suc i) as (store_l buf i a)
      else None)"

definition xinput_do_set_int_prop ::
  "xenv \<Rightarrow> string \<Rightarrow> int \<Rightarrow> cint list \<Rightarrow> bool \<times> event list" where
  "xinput_do_set_int_prop env name format argv =
     (let entry = [Set_int_prop name format argv] in
      if \<not> HAVE_XI_PROP env then (False, entry)
      else if length argv < 1 then
        (False, entry @ [Stderr (''Wrong usage of xinput_do_set_prop, need at least 1 arguments'' @ nl)])
      else
        (case xinput_parse_atom env name of (prop, ea) \<Rightarrow>
          if prop = None_atom then
            (False, entry @ ea @ [Stderr (''invalid property '' @ name @ nl)])
          else
            (case (if format = 0
                   then (case get_device_property env prop 0 of
                           None \<Rightarrow> Inl [XGetDeviceProperty prop 0 0,
                                        Stderr (''failed to get property type and format for '' @ name @ nl)]
                         | Some r \<Rightarrow> Inr (act_format r, [XGetDeviceProperty prop 0 0]))
                   else Inr (format, []))
             of Inl ef \<Rightarrow> (False, entry @ ea @ ef)
              | Inr (format', ef) \<Rightarrow>
                 (case fill format' 0 argv (replicate (length argv * sizeof_long) 0) of
                    None \<Rightarrow> (False, entry @ ea @ ef @ [Stderr (''unexpected size for property '' @ name @ nl)])
                  | Some buf \<Rightarrow>
                      (True, entry @ ea @ ef @ [XChangeDeviceProperty prop format' buf (length argv)])))))"

subsection \<open>set\_swapxy, set\_invert\_xy, set\_calibration\<close>

definition set_swapxy :: "Calibrator \<Rightarrow> xenv \<Rightarrow> cint \<Rightarrow> bool \<times> event list" where
  "set_swapxy this env swap =
     (case xinput_do_set_int_prop env ''Evdev Axes Swap'' 8 [swap] of (ret, ew) \<Rightarrow>
        (ret,
         [Stdout (tab @ ''Swapping X and Y axis...'' @ nl)] @ ew @
         (if verbose this then
            (if ret then [Stdout (''DEBUG: Successfully set swapped X and Y axes = '' @ pd swap @ ''.'' @ nl)]
             else [Stdout (''DEBUG: Failed to set swap X and Y axes.'' @ nl)])
          else [])))"

definition set_invert_xy :: "Calibrator \<Rightarrow> xenv \<Rightarrow> cint \<Rightarrow> cint \<Rightarrow> bool \<times> event list" where
  "set_invert_xy this env invert_x invert_y =
     (case xinput_do_set_int_prop env ''Evdev Axis Inversion'' 8 [invert_x, invert_y] of (ret, ew) \<Rightarrow>
        (ret,
         [Stdout (tab @ ''Inverting X and/or Y axis...'' @ nl)] @ ew @
         (if verbose this then
            (if ret then [Stdout (''DEBUG: Successfully set invert axis X='' @ pd invert_x @
                                   '', Y='' @ pd invert_y @ ''.'' @ nl)]
             else [Stdout (''DEBUG: Failed to set axis inversion.'' @ nl)])
          else [])))"

definition set_calibration :: "Calibrator \<Rightarrow> xenv \<Rightarrow> XYinfo \<Rightarrow> bool \<times> event list" where
  "set_calibration this env new_axys =
     (case xinput_do_set_int_prop env ''Evdev Axis Calibration'' 32
             [minv (x new_axys), maxv (x new_axys), minv (y new_axys), maxv (y new_axys)]
      of (ret, ew) \<Rightarrow>
        (ret,
         [Stdout (tab @ ''Setting calibration data: '' @ pd (minv (x new_axys)) @ '', '' @
                  pd (maxv (x new_axys)) @ '', '' @ pd (minv (y new_axys)) @ '', '' @
                  pd (maxv (y new_axys)) @ nl)] @ ew @
         (if verbose this then
            (if ret then [Stdout (''DEBUG: Successfully applied axis calibration.'' @ nl)]
             else [Stdout (''DEBUG: Failed to apply axis calibration.'' @ nl)])
          else [])))"

subsection \<open>apply\<close>

text \<open>
  \<^verbatim>\<open>CalibratorEvdev::apply\<close> (named \<open>apply_axys\<close> here). \<^verbatim>\<open>success &= f()\<close> always calls
  \<^verbatim>\<open>f\<close>; the result of \<^verbatim>\<open>set_invert_xy(false, false)\<close> is dropped.
\<close>

definition apply_axys :: "Calibrator \<Rightarrow> xenv \<Rightarrow> XYinfo \<Rightarrow> bool \<times> event list" where
  "apply_axys this env new_axys =
     (let success0 = True;
          e0 = [Stdout (nl @ ''Doing dynamic recalibration:'' @ nl)]
      in case (if swap_xy (old_axys this) \<noteq> swap_xy new_axys
               then (case set_swapxy this env (int_of_bool (swap_xy new_axys)) of
                       (r, e) \<Rightarrow> (success0 \<and> r, e))
               else (success0, []))
         of (success1, e1) \<Rightarrow>
           (case set_invert_xy this env (int_of_bool False) (int_of_bool False) of (_, e2) \<Rightarrow>
             (case set_calibration this env new_axys of (r3, e3) \<Rightarrow>
               (success1 \<and> r3, e0 @ e1 @ e2 @ e3 @ [XSync]))))"

subsection \<open>detect\_axys\<close>

text \<open>
  The only undefined behaviour of the file: with between one and three items in a
  32-bit integer reply, \<^verbatim>\<open>detect_axys\<close> still reads four \<^verbatim>\<open>long\<close>s from the buffer.
\<close>

datatype fault = Read_past_buffer

text \<open>
  The first block: the read of "Evdev Axis Calibration". With no items, the held value
  \<^verbatim>\<open>old_axys\<close> is written back (result ignored); with items, four \<^verbatim>\<open>long\<close>s are read and
  each is converted to \<^verbatim>\<open>int\<close>.
\<close>

definition detect_calibration :: "Calibrator \<Rightarrow> xenv \<Rightarrow> fault + (Calibrator \<times> event list)" where
  "detect_calibration this env =
     (case xinput_parse_atom env ''Evdev Axis Calibration'' of (property, ea) \<Rightarrow>
        let eg = ea @ [XGetDeviceProperty property 0 1000] in
        (case get_device_property env property 1000 of
          None \<Rightarrow> Inr (this, eg)
        | Some r \<Rightarrow>
            if act_format r = 32 \<and> act_type r = XA_INTEGER then
              if nitems r = 0 then
                (case set_calibration this env (old_axys this) of (_, ew) \<Rightarrow>
                   Inr (this,
                        eg @
                        (if verbose this
                         then [Stdout (''DEBUG: Evdev Axis Calibration not set, setting to axis valuators to be sure.'' @ nl)]
                         else []) @ ew))
              else
                (case prop_data r of
                   Longs (l0 # l1 # l2 # l3 # _) \<Rightarrow>
                     Inr (this\<lparr>old_axys := (old_axys this)
                            \<lparr>x := (x (old_axys this))\<lparr>minv := ucast l0, maxv := ucast l1\<rparr>,
                             y := (y (old_axys this))\<lparr>minv := ucast l2, maxv := ucast l3\<rparr>\<rparr>\<rparr>,
                          eg)
                 | _ \<Rightarrow> Inl Read_past_buffer)
            else Inr (this, eg)))"

text \<open>The second block: the read of "Evdev Axes Swap" (a \<^verbatim>\<open>char\<close> converted to \<^verbatim>\<open>bool\<close>).\<close>

definition detect_swap :: "Calibrator \<Rightarrow> xenv \<Rightarrow> Calibrator \<times> event list" where
  "detect_swap this env =
     (case xinput_parse_atom env ''Evdev Axes Swap'' of (property, ea) \<Rightarrow>
        let eg = ea @ [XGetDeviceProperty property 0 1000] in
        (case get_device_property env property 1000 of
          None \<Rightarrow> (this, eg)
        | Some r \<Rightarrow>
            if act_format r = 8 \<and> act_type r = XA_INTEGER \<and> nitems r = 1 then
              (case prop_data r of
                 Chars (c # _) \<Rightarrow>
                   (this\<lparr>old_axys := (old_axys this)\<lparr>swap_xy := (c \<noteq> 0)\<rparr>\<rparr>,
                    eg @
                    (if verbose this
                     then [Stdout (''DEBUG: Read axes swap value of '' @ pd (int_of_bool (c \<noteq> 0)) @ ''.'' @ nl)]
                     else []))
               | _ \<Rightarrow> (this, eg))
            else (this, eg)))"

text \<open>
  The third block: the read of "Evdev Axis Inversion". Each flag that is set exchanges
  the \<^verbatim>\<open>min\<close> and \<^verbatim>\<open>max\<close> of its axis (\<^verbatim>\<open>std::swap\<close>).
\<close>

definition swap_min_max :: "AxisInfo \<Rightarrow> AxisInfo" where
  "swap_min_max a = a\<lparr>minv := maxv a, maxv := minv a\<rparr>"

definition detect_inversion :: "Calibrator \<Rightarrow> xenv \<Rightarrow> Calibrator \<times> event list" where
  "detect_inversion this env =
     (case xinput_parse_atom env ''Evdev Axis Inversion'' of (property, ea) \<Rightarrow>
        let eg = ea @ [XGetDeviceProperty property 0 1000] in
        (case get_device_property env property 1000 of
          None \<Rightarrow> (this, eg)
        | Some r \<Rightarrow>
            if act_format r = 8 \<and> act_type r = XA_INTEGER \<and> nitems r = 2 then
              (case prop_data r of
                 Chars (c0 # c1 # _) \<Rightarrow>
                   (let invert_x = (c0 \<noteq> 0);
                        invert_y = (c1 \<noteq> 0);
                        o1 = old_axys this;
                        o2 = (if invert_x then o1\<lparr>x := swap_min_max (x o1)\<rparr> else o1);
                        o3 = (if invert_y then o2\<lparr>y := swap_min_max (y o2)\<rparr> else o2)
                    in (this\<lparr>old_axys := o3\<rparr>,
                        eg @
                        (if verbose this
                         then [Stdout (''DEBUG: Read InvertX='' @ pd (int_of_bool invert_x) @
                                        '', InvertY='' @ pd (int_of_bool invert_y) @ ''.'' @ nl)]
                         else [])))
               | _ \<Rightarrow> (this, eg))
            else (this, eg)))"

definition detect_axys :: "Calibrator \<Rightarrow> xenv \<Rightarrow> fault + (Calibrator \<times> event list)" where
  "detect_axys this env =
     (case detect_calibration this env of
        Inl f \<Rightarrow> Inl f
      | Inr (t1, e1) \<Rightarrow>
          (case detect_swap t1 env of (t2, e2) \<Rightarrow>
            (case detect_inversion t2 env of (t3, e3) \<Rightarrow>
               Inr (t3\<lparr>orig_axys := old_axys t3\<rparr>,
                    e1 @ e2 @ e3 @
                    [Stdout (tab @ ''current calibration values (from XInput): min_x='' @
                             pd (minv (x (old_axys t3))) @ '', max_x='' @ pd (maxv (x (old_axys t3))) @
                             '' and min_y='' @ pd (minv (y (old_axys t3))) @ '', max_y='' @
                             pd (maxv (y (old_axys t3))) @ nl)]))))"

subsection \<open>xinput\_find\_device\_info\<close>

text \<open>
  The loop over the device list, with the state \<^verbatim>\<open>found\<close>; \<open>device_matches\<close> is the
  condition of its \<^verbatim>\<open>if\<close>. A second match prints the warning and returns \<^verbatim>\<open>NULL\<close> at
  once.
\<close>

definition multiple_warning :: "string \<Rightarrow> string" where
  "multiple_warning name =
     ''Warning: There are multiple devices named '' @ dq @ name @ dq @ ''.'' @ nl @
     ''To ensure the correct one is selected, please use the device ID instead.'' @ nl @ nl"

definition device_matches :: "bool \<Rightarrow> bool \<Rightarrow> clong \<Rightarrow> string \<Rightarrow> XDeviceInfo \<Rightarrow> bool" where
  "device_matches only_extended is_id ident name d =
     ((\<not> only_extended \<or> dev_use d \<ge> IsXExtensionDevice) \<and>
      ((\<not> is_id \<and> dev_name d = name) \<or> (is_id \<and> dev_id d = ident)))"

fun find_loop ::
  "bool \<Rightarrow> bool \<Rightarrow> clong \<Rightarrow> string \<Rightarrow> XDeviceInfo list \<Rightarrow> XDeviceInfo option
     \<Rightarrow> XDeviceInfo option \<times> event list" where
  "find_loop only_extended is_id ident name [] found = (found, [])"
| "find_loop only_extended is_id ident name (d # ds) found =
     (if device_matches only_extended is_id ident name d
      then (case found of
              Some _ \<Rightarrow> (None, [Stderr (multiple_warning name)])
            | None \<Rightarrow> find_loop only_extended is_id ident name ds (Some d))
      else find_loop only_extended is_id ident name ds found)"

definition xinput_find_device_info ::
  "xenv \<Rightarrow> string \<Rightarrow> bool \<Rightarrow> XDeviceInfo option \<times> event list" where
  "xinput_find_device_info env name only_extended =
     (let is_id = all_digits name;
          ident = (if is_id then scast (atoi name) else (- 1 :: clong))
      in case find_loop only_extended is_id ident name (input_devices env) None of
           (found, ew) \<Rightarrow> (found, [XListInputDevices] @ ew))"

subsection \<open>The constructor\<close>

datatype exn = WrongCalibratorException string

text \<open>
  The public constructor, after the base class constructor has run. It returns the
  events and either the exception thrown or the id of the device it opened.
\<close>

definition CalibratorEvdev ::
  "xenv \<Rightarrow> string \<Rightarrow> clong \<Rightarrow> event list \<times> (exn + clong)" where
  "CalibratorEvdev env device_name0 device_id0 =
     (if \<not> display_ok env then
        ([XOpenDisplay False], Inl (WrongCalibratorException ''Evdev: Unable to connect to X server''))
      else
        (case (if device_id0 = - 1
               then (case xinput_find_device_info env device_name0 False of
                       (None, ef) \<Rightarrow> Inl ef
                     | (Some devInfo, ef) \<Rightarrow> Inr (dev_id devInfo, ef))
               else Inr (device_id0, []))
         of Inl ef \<Rightarrow>
              ([XOpenDisplay True] @ ef @ [XCloseDisplay],
               Inl (WrongCalibratorException ''Evdev: Unable to find device''))
          | Inr (device_id, ef) \<Rightarrow>
              if \<not> device_ok env device_id then
                ([XOpenDisplay True] @ ef @ [XOpenDevice device_id False, XCloseDisplay],
                 Inl (WrongCalibratorException ''Evdev: Unable to open device''))
              else if \<not> HAVE_XI_PROP env then
                ([XOpenDisplay True] @ ef @ [XOpenDevice device_id True],
                 Inl (WrongCalibratorException
                   ''Evdev: you need at least libXi 1.2 and inputproto 1.5 for dynamic recalibration of evdev.''))
              else
                (case xinput_parse_atom env ''Evdev Axis Calibration'' of (property, ea) \<Rightarrow>
                   (case get_device_property env property 1000 of
                      None \<Rightarrow>
                        ([XOpenDisplay True] @ ef @ [XOpenDevice device_id True] @ ea @
                         [XGetDeviceProperty property 0 1000, XCloseDevice, XCloseDisplay],
                         Inl (WrongCalibratorException
                           (''Evdev: '' @ dq @ ''Evdev Axis Calibration'' @ dq @
                            '' property missing, not a (valid) evdev device'')))
                    | Some _ \<Rightarrow>
                        ([XOpenDisplay True] @ ef @ [XOpenDevice device_id True] @ ea @
                         [XGetDeviceProperty property 0 1000,
                          Stdout (''Calibrating EVDEV driver for '' @ dq @ device_name0 @ dq @
                                  '' id='' @ pd (ucast device_id) @ nl)],
                         Inr device_id)))))"

text \<open>
  Which handles a trace leaves open: the display from a successful \<^verbatim>\<open>XOpenDisplay\<close> to
  \<^verbatim>\<open>XCloseDisplay\<close>, the device from a successful \<^verbatim>\<open>XOpenDevice\<close> to \<^verbatim>\<open>XCloseDevice\<close>.
\<close>

fun display_open :: "event list \<Rightarrow> bool \<Rightarrow> bool" where
  "display_open [] b = b"
| "display_open (XOpenDisplay ok # es) b = display_open es (b \<or> ok)"
| "display_open (XCloseDisplay # es) b = display_open es False"
| "display_open (_ # es) b = display_open es b"

fun device_open :: "event list \<Rightarrow> bool \<Rightarrow> bool" where
  "device_open [] b = b"
| "device_open (XOpenDevice _ ok # es) b = device_open es (b \<or> ok)"
| "device_open (XCloseDevice # es) b = device_open es False"
| "device_open (_ # es) b = device_open es b"

subsection \<open>The three outputs and finish\_data\<close>

definition placeholder :: string where
  "placeholder = ''!!Name_Of_TouchScreen!!''"

text \<open>The expansion of \<^verbatim>\<open>"%d %d %d %d"\<close> with the four range values, used by all outputs.\<close>

definition four_values :: "XYinfo \<Rightarrow> string" where
  "four_values a =
     pd (minv (x a)) @ '' '' @ pd (maxv (x a)) @ '' '' @ pd (minv (y a)) @ '' '' @ pd (maxv (y a))"

definition output_xorgconfd :: "Calibrator \<Rightarrow> xenv \<Rightarrow> XYinfo \<Rightarrow> bool \<times> event list" where
  "output_xorgconfd this env new_axys =
     (let not_sysfs_name = (sysfs_name env = None);
          sysfs = (case sysfs_name env of None \<Rightarrow> placeholder | Some s \<Rightarrow> s)
      in (True,
          [Stdout (''  copy the snippet below into '' @ sq @ ''/etc/X11/xorg.conf.d/99-calibration.conf'' @ sq @ nl),
           Stdout (''Section '' @ dq @ ''InputClass'' @ dq @ nl),
           Stdout (tab @ ''Identifier'' @ tab @ dq @ ''calibration'' @ dq @ nl),
           Stdout (tab @ ''MatchProduct'' @ tab @ dq @ sysfs @ dq @ nl),
           Stdout (tab @ ''Option'' @ tab @ dq @ ''Calibration'' @ dq @ tab @ dq @ four_values new_axys @ dq @ nl),
           Stdout (tab @ ''Option'' @ tab @ dq @ ''SwapAxes'' @ dq @ tab @ dq @
                   pd (int_of_bool (swap_xy new_axys)) @ dq @ nl),
           Stdout (''EndSection'' @ nl)] @
          (if not_sysfs_name
           then [Stdout (nl @ ''Change '' @ sq @ sysfs @ sq @ '' to your device'' @ sq @
                         ''s name in the snippet above.'' @ nl)]
           else [])))"

definition output_hal :: "Calibrator \<Rightarrow> xenv \<Rightarrow> XYinfo \<Rightarrow> bool \<times> event list" where
  "output_hal this env new_axys =
     (let not_sysfs_name = (sysfs_name env = None);
          sysfs = (case sysfs_name env of None \<Rightarrow> placeholder | Some s \<Rightarrow> s)
      in (True,
          [Stdout (''  copy the policy below into '' @ sq @ ''/etc/hal/fdi/policy/touchscreen.fdi'' @ sq @ nl @
                   ''<match key='' @ dq @ ''info.product'' @ dq @ '' contains='' @ dq @ sysfs @ dq @ ''>'' @ nl @
                   ''  <merge key='' @ dq @ ''input.x11_options.calibration'' @ dq @ '' type='' @ dq @
                   ''string'' @ dq @ ''>'' @ four_values new_axys @ ''</merge>'' @ nl),
           Stdout (''  <merge key='' @ dq @ ''input.x11_options.swapaxes'' @ dq @ '' type='' @ dq @
                   ''string'' @ dq @ ''>'' @ pd (int_of_bool (swap_xy new_axys)) @ ''</merge>'' @ nl),
           Stdout (''</match>'' @ nl)] @
          (if not_sysfs_name
           then [Stdout (nl @ ''Change '' @ sq @ sysfs @ sq @ '' to your device'' @ sq @
                         ''s name in the config above.'' @ nl)]
           else [])))"

definition output_xinput :: "Calibrator \<Rightarrow> xenv \<Rightarrow> XYinfo \<Rightarrow> bool \<times> event list" where
  "output_xinput this env new_axys =
     (True,
      [Stdout (''  Install the '' @ sq @ ''xinput'' @ sq @
               '' tool and copy the command(s) below in a script that starts with your X session'' @ nl),
       Stdout (''    xinput set-int-prop '' @ dq @ device_name this @ dq @ '' '' @ dq @
               ''Evdev Axis Calibration'' @ dq @ '' 32 '' @ four_values new_axys @ nl),
       Stdout (''    xinput set-int-prop '' @ dq @ device_name this @ dq @ '' '' @ dq @
               ''Evdev Axes Swap'' @ dq @ '' 8 '' @ pd (int_of_bool (swap_xy new_axys)) @ nl)])"

definition banner :: event where
  "banner = Stdout (tab @ ''--> Making the calibration permanent <--'' @ nl)"

definition finish_data :: "Calibrator \<Rightarrow> xenv \<Rightarrow> XYinfo \<Rightarrow> bool \<times> event list" where
  "finish_data this env new_axys =
     (let success0 = True in
      case apply_axys this env new_axys of (ra, ea) \<Rightarrow>
        (let success1 = (success0 \<and> ra) in
         case output_type this of
           OUTYPE_AUTO \<Rightarrow>
             (if xorgconfd_support env
              then (case output_xorgconfd this env new_axys of (r, eo) \<Rightarrow>
                      (success1 \<and> r, ea @ [banner] @ eo))
              else (case output_xinput this env new_axys of (r, eo) \<Rightarrow>
                      (success1 \<and> r, ea @ [banner] @ eo)))
         | OUTYPE_XORGCONFD \<Rightarrow>
             (case output_xorgconfd this env new_axys of (r, eo) \<Rightarrow>
                (success1 \<and> r, ea @ [banner] @ eo))
         | OUTYPE_HAL \<Rightarrow>
             (case output_hal this env new_axys of (r, eo) \<Rightarrow>
                (success1 \<and> r, ea @ [banner] @ eo))
         | OUTYPE_XINPUT \<Rightarrow>
             (case output_xinput this env new_axys of (r, eo) \<Rightarrow>
                (success1 \<and> r, ea @ [banner] @ eo))
         | OUTYPE_OTHER _ \<Rightarrow>
             (False,
              ea @ [banner,
                    Stderr (''ERROR: Evdev Calibrator does not support the supplied --output-type'' @ nl)])))"

subsection \<open>Observations on traces\<close>

text \<open>
  A step of \<^verbatim>\<open>apply\<close> that the claims speak of: an attempted property write (a call of
  \<^verbatim>\<open>xinput_do_set_int_prop\<close>) or the final \<^verbatim>\<open>XSync\<close>. On the wire, the corresponding
  events are the \<^verbatim>\<open>XChangeDeviceProperty\<close> requests and \<^verbatim>\<open>XSync\<close>.
\<close>

fun step_event :: "event \<Rightarrow> bool" where
  "step_event (Set_int_prop _ _ _) = True"
| "step_event XSync = True"
| "step_event _ = False"

fun wire_event :: "event \<Rightarrow> bool" where
  "wire_event (XChangeDeviceProperty _ _ _ _) = True"
| "wire_event XSync = True"
| "wire_event _ = False"

fun write_to :: "string \<Rightarrow> event \<Rightarrow> bool" where
  "write_to name (Set_int_prop n _ _) = (n = name)"
| "write_to name _ = False"

fun change_of :: "clong \<Rightarrow> event \<Rightarrow> bool" where
  "change_of a (XChangeDeviceProperty p _ _ _) = (p = a)"
| "change_of a _ = False"

text \<open>
  The loop of \<^verbatim>\<open>xinput_do_set_int_prop\<close> as the spec words it, for comparison: the 8-bit
  and the 16-bit store are mutually exclusive (\<^verbatim>\<open>case 8\<close> ends with a \<^verbatim>\<open>break\<close>).
\<close>

fun fill_exclusive :: "int \<Rightarrow> nat \<Rightarrow> cint list \<Rightarrow> byte list \<Rightarrow> byte list option" where
  "fill_exclusive format i [] buf = Some buf"
| "fill_exclusive format i (a # as) buf =
     (if format = 8 then fill_exclusive format (Suc i) as (store_c buf i a)
      else if format = 16 then fill_exclusive format (Suc i) as (store_s buf i a)
      else if format = 32 then fill_exclusive format (Suc i) as (store_l buf i a)
      else None)"

text \<open>
  The persistence strategy that \<^verbatim>\<open>finish_data\<close> is to run for an output type it
  supports, and the devices a name or id selects.
\<close>

definition supported :: "OutputType \<Rightarrow> bool" where
  "supported t = (case t of OUTYPE_OTHER _ \<Rightarrow> False | _ \<Rightarrow> True)"

definition strategy ::
  "Calibrator \<Rightarrow> xenv \<Rightarrow> (Calibrator \<Rightarrow> xenv \<Rightarrow> XYinfo \<Rightarrow> bool \<times> event list)" where
  "strategy this env =
     (case output_type this of
        OUTYPE_AUTO \<Rightarrow> (if xorgconfd_support env then output_xorgconfd else output_xinput)
      | OUTYPE_XORGCONFD \<Rightarrow> output_xorgconfd
      | OUTYPE_HAL \<Rightarrow> output_hal
      | _ \<Rightarrow> output_xinput)"

definition eligible :: "bool \<Rightarrow> XDeviceInfo \<Rightarrow> bool" where
  "eligible only_extended d = (if only_extended then dev_use d \<ge> IsXExtensionDevice else True)"

definition the_only :: "'a list \<Rightarrow> 'a option" where
  "the_only ds = (case ds of [d] \<Rightarrow> Some d | _ \<Rightarrow> None)"

text \<open>
  The devices that \<^verbatim>\<open>xinput_find_device_info\<close> is to consider for a name: by id when
  the name is all digits, by name otherwise.
\<close>

definition selects :: "bool \<Rightarrow> string \<Rightarrow> XDeviceInfo \<Rightarrow> bool" where
  "selects only_extended name d =
     (eligible only_extended d \<and>
      (if all_digits name then dev_id d = scast (atoi name) else dev_name d = name))"

text \<open>A text occurs in a line that was printed to standard output.\<close>

definition embeds :: "string \<Rightarrow> event list \<Rightarrow> bool" where
  "embeds s evs = (\<exists>pre post. Stdout (pre @ s @ post) \<in> set evs)"

subsection \<open>A sample session\<close>

text \<open>
  A healthy server with two devices named "ts" and one named "pen", the three evdev
  properties set, and the calibration change of the spec's end-to-end example.
\<close>

definition atoms_ex :: "string \<Rightarrow> clong" where
  "atoms_ex n =
     (if n = ''Evdev Axis Calibration'' then 260
      else if n = ''Evdev Axes Swap'' then 261
      else if n = ''Evdev Axis Inversion'' then 262
      else 300)"

definition replies_ex :: "clong \<Rightarrow> nat \<Rightarrow> prop_reply option" where
  "replies_ex a len =
     (if a = 260 then Some \<lparr>act_type = XA_INTEGER, prop_data = Longs [0, 4095, 0, 4095]\<rparr>
      else if a = 261 then Some \<lparr>act_type = XA_INTEGER, prop_data = Chars [0]\<rparr>
      else if a = 262 then Some \<lparr>act_type = XA_INTEGER, prop_data = Chars [1, 0]\<rparr>
      else None)"

definition env_ex :: xenv where
  "env_ex =
     \<lparr>HAVE_XI_PROP = True, display_ok = True,
      input_devices =
        [\<lparr>dev_id = 9, dev_name = ''ts'', dev_use = 4\<rparr>,
         \<lparr>dev_id = 10, dev_name = ''ts'', dev_use = 4\<rparr>,
         \<lparr>dev_id = 11, dev_name = ''pen'', dev_use = 4\<rparr>],
      device_ok = (\<lambda>_. True),
      intern_atom = atoms_ex,
      device_property = replies_ex,
      sysfs_name = None, xorgconfd_support = True\<rparr>"

definition axys_old :: XYinfo where
  "axys_old = \<lparr>x = \<lparr>minv = 0, maxv = 4095\<rparr>, y = \<lparr>minv = 0, maxv = 4095\<rparr>, swap_xy = False\<rparr>"

definition axys_new :: XYinfo where
  "axys_new = \<lparr>x = \<lparr>minv = 100, maxv = 3900\<rparr>, y = \<lparr>minv = 50, maxv = 4000\<rparr>, swap_xy = True\<rparr>"

definition this_ex :: Calibrator where
  "this_ex = \<lparr>device_name = ''ts'', old_axys = axys_old, orig_axys = axys_old,
               output_type = OUTYPE_AUTO, verbose = False\<rparr>"

text \<open>The same server, except that \<^verbatim>\<open>XInternAtom\<close> fails for "Evdev Axis Inversion".\<close>

definition env_noinv :: xenv where
  "env_noinv = env_ex\<lparr>intern_atom := (\<lambda>n. if n = ''Evdev Axis Inversion'' then 0 else atoms_ex n)\<rparr>"

text \<open>And the sample server on which \<^verbatim>\<open>XInternAtom\<close> fails for "Evdev Axis Calibration".\<close>

definition env_nocal :: xenv where
  "env_nocal = env_ex\<lparr>intern_atom := (\<lambda>n. if n = ''Evdev Axis Calibration'' then 0 else atoms_ex n)\<rparr>"

text \<open>The sample server with the axis-calibration property present but empty.\<close>

definition env_unset :: xenv where
  "env_unset = env_ex\<lparr>device_property :=
      (\<lambda>a len. if a = 260 then Some \<lparr>act_type = XA_INTEGER, prop_data = Longs []\<rparr> else replies_ex a len)\<rparr>"

text \<open>
  A build without \<^verbatim>\<open>HAVE_XI_PROP\<close>, and a server with a device that is named "12" and a
  device whose id is 12.
\<close>

definition env_noxi :: xenv where
  "env_noxi = env_ex\<lparr>HAVE_XI_PROP := False\<rparr>"

definition env_ids :: xenv where
  "env_ids = env_ex\<lparr>input_devices :=
      [\<lparr>dev_id = 5, dev_name = ''12'', dev_use = 4\<rparr>, \<lparr>dev_id = 12, dev_name = ''pen'', dev_use = 4\<rparr>]\<rparr>"

text \<open>
  The sample server with an axis-inversion property of two 8-bit items, both set, whose
  type is not \<^verbatim>\<open>XA_INTEGER\<close> but \<^verbatim>\<open>XA_STRING\<close> (31).
\<close>

definition env_strflags :: xenv where
  "env_strflags = env_ex\<lparr>device_property :=
      (\<lambda>a len. if a = 262 then Some \<lparr>act_type = 31, prop_data = Chars [1, 1]\<rparr> else replies_ex a len)\<rparr>"

section \<open>Properties\<close>

subsection \<open>The buffer\<close>

lemma length_write_bytes [simp]: "length (write_bytes buf off bs) = length buf"
  by (induction bs arbitrary: buf off) simp_all

lemma length_le_bytes [simp]: "length (le_bytes n w) = n"
  by (simp add: le_bytes_def)

lemma nth_write_bytes:
  "j < length buf \<Longrightarrow>
   write_bytes buf off bs ! j = (if off \<le> j \<and> j < off + length bs then bs ! (j - off) else buf ! j)"
proof (induction bs arbitrary: buf off)
  case Nil
  then show ?case by auto
next
  case (Cons b bs)
  then show ?case
    by (auto simp: nth_list_update Suc_diff_le nth_Cons')
qed

lemma write_bytes_closed:
  "off + length bs \<le> length buf \<Longrightarrow>
   write_bytes buf off bs = take off buf @ bs @ drop (off + length bs) buf"
proof (induction bs arbitrary: buf off)
  case Nil
  then show ?case by simp
next
  case (Cons b bs)
  have "buf[off := b] = take off buf @ b # drop (Suc off) buf"
    using Cons.prems by (simp add: upd_conv_take_nth_drop)
  with Cons show ?case by (simp add: take_Suc_conv_app_nth add.commute)
qed

lemma fill_8_not_None: "fill 8 i as buf \<noteq> None"
  by (induction as arbitrary: i buf) simp_all

lemma fill_32_not_None: "fill 32 i as buf \<noteq> None"
  by (induction as arbitrary: i buf) simp_all

lemma length_fill: "fill format i as buf = Some b \<Longrightarrow> length b = length buf"
  by (induction as arbitrary: i buf) (auto simp: store_c_def store_s_def store_l_def split: if_splits)

text \<open>Format 32: the buffer holds the eight bytes of each sign-extended argument, in order.\<close>

lemma fill_32_closed:
  "sizeof_long * (i + length as) \<le> length buf \<Longrightarrow>
   fill 32 i as buf =
     Some (take (sizeof_long * i) buf @ concat (map (\<lambda>v. le_bytes sizeof_long (scast v :: clong)) as) @
           drop (sizeof_long * (i + length as)) buf)"
proof (induction as arbitrary: i buf)
  case Nil
  then show ?case by simp
next
  case (Cons a as)
  have st: "store_l buf i a =
      take (sizeof_long * i) buf @ le_bytes sizeof_long (scast a :: clong) @
      drop (sizeof_long * i + sizeof_long) buf"
    unfolding store_l_def using Cons.prems
    by (subst write_bytes_closed) (simp_all add: algebra_simps)
  have len: "sizeof_long * (Suc i + length as) \<le> length (store_l buf i a)"
    using Cons.prems by (simp add: store_l_def)
  show ?case
    using Cons.IH [OF len] Cons.prems
    by (simp add: st algebra_simps)
qed

lemma upt_8: "[0..<8] = [0, 1, 2, 3, 4, 5, 6, 7]"
  by (simp add: upt_rec)

lemma le_bytes_long:
  "le_bytes sizeof_long w =
     [ucast w, ucast (drop_bit 8 w), ucast (drop_bit 16 w), ucast (drop_bit 24 w),
      ucast (drop_bit 32 w), ucast (drop_bit 40 w), ucast (drop_bit 48 w), ucast (drop_bit 56 w)]"
  by (simp add: le_bytes_def sizeof_long_def upt_8)

lemma ucast_short_byte: "(ucast (ucast (a::cint) :: cshort) :: byte) = ucast a"
  by (rule bit_word_eqI) (auto simp add: bit_simps)

text \<open>
  Format 8 on this (little-endian) machine: in spite of the 16-bit store that follows
  each 8-bit store, byte \<open>k\<close> of the buffer ends up as argument \<open>k\<close> truncated to 8 bits,
  for every \<open>k\<close> below \<^verbatim>\<open>argc\<close>. These are the bytes a format-8 request transmits.
\<close>

lemma fill_8_bytes:
  "i + length as \<le> length buf \<Longrightarrow> fill 8 i as buf = Some b \<Longrightarrow>
   (\<forall>j < i. b ! j = buf ! j) \<and> (\<forall>k < length as. b ! (i + k) = ucast (as ! k))"
proof (induction as arbitrary: i buf)
  case Nil
  then show ?case by simp
next
  case (Cons a as)
  let ?buf' = "store_s (store_c buf i a) i a"
  have f: "fill 8 (Suc i) as ?buf' = Some b"
    using Cons.prems by simp
  have len: "Suc i + length as \<le> length ?buf'"
    using Cons.prems by (simp add: store_s_def store_c_def)
  note IH = Cons.IH [OF len f]
  have i_lt: "i < length buf" using Cons.prems by simp
  have below: "?buf' ! j = buf ! j" if "j < i" for j
    using that i_lt by (simp add: store_s_def store_c_def nth_write_bytes)
  have at: "?buf' ! i = ucast a"
    using i_lt by (auto simp: store_s_def store_c_def nth_write_bytes le_bytes_def ucast_short_byte)
  show ?case
  proof (intro conjI allI impI)
    fix j assume "j < i"
    then show "b ! j = buf ! j" using IH below by simp
  next
    fix k assume k: "k < length (a # as)"
    show "b ! (i + k) = ucast ((a # as) ! k)"
    proof (cases k)
      case 0
      then show ?thesis using IH at by simp
    next
      case (Suc k')
      then show ?thesis using IH k by simp
    qed
  qed
qed

lemma fill_8_transmits:
  assumes "fill 8 0 argv (replicate (length argv * sizeof_long) 0) = Some b"
  shows "take (length argv) b = map ucast argv"
proof (rule nth_equalityI)
  have len: "length b = length argv * sizeof_long"
    using length_fill [OF assms] by simp
  then show "length (take (length argv) b) = length (map ucast argv)"
    by (simp add: sizeof_long_def)
  fix k assume "k < length (take (length argv) b)"
  then have k: "k < length argv" by simp
  have "0 + length argv \<le> length (replicate (length argv * sizeof_long) (0::byte))"
    by (simp add: sizeof_long_def)
  from fill_8_bytes [OF this assms] k have "b ! k = ucast (argv ! k)"
    by simp
  with k show "take (length argv) b ! k = map ucast argv ! k"
    by simp
qed

subsection \<open>Property writes\<close>

lemma set_int_prop_unfold:
  assumes "\<not> all_digits name" "argv \<noteq> []" "format = 8 \<or> format = 32"
  shows "xinput_do_set_int_prop env name format argv =
     (HAVE_XI_PROP env \<and> intern_atom env name \<noteq> 0,
      Set_int_prop name format argv #
      (if HAVE_XI_PROP env then
         XInternAtom name #
         (if intern_atom env name = 0 then [Stderr (''invalid property '' @ name @ nl)]
          else [XChangeDeviceProperty (intern_atom env name) format
                  (the (fill format 0 argv (replicate (length argv * sizeof_long) 0))) (length argv)])
       else []))"
proof -
  obtain b where b: "fill format 0 argv (replicate (length argv * sizeof_long) 0) = Some b"
    using assms(3) fill_8_not_None fill_32_not_None by fastforce
  show ?thesis
    using assms b
    by (auto simp: xinput_do_set_int_prop_def xinput_parse_atom_def None_atom_def Let_def)
qed

lemma swap_buffer:
  "fill 8 0 [int_of_bool b] (replicate (length [int_of_bool b] * sizeof_long) 0) =
     Some ((if b then 1 else 0) # replicate 7 0)"
  by (simp add: sizeof_long_def store_c_def store_s_def le_bytes_def int_of_bool_def eval_nat_numeral upt_rec)

lemma calibration_buffer:
  "fill 32 0 [a, b, c, d] (replicate (length [a, b, c, d] * sizeof_long) 0) =
     Some (concat (map (\<lambda>v. le_bytes sizeof_long (scast v :: clong)) [a, b, c, d]))"
  by (subst fill_32_closed) (simp_all add: sizeof_long_def)

lemma set_int_prop_steps:
  "filter step_event (snd (xinput_do_set_int_prop env name format argv)) = [Set_int_prop name format argv]"
  by (simp add: xinput_do_set_int_prop_def xinput_parse_atom_def Let_def split: prod.splits option.splits sum.splits)

lemma set_int_prop_write_to:
  "filter (write_to n) (snd (xinput_do_set_int_prop env name format argv)) =
     (if name = n then [Set_int_prop name format argv] else [])"
  by (simp add: xinput_do_set_int_prop_def xinput_parse_atom_def Let_def split: prod.splits option.splits sum.splits)

lemma set_int_prop_swap:
  "xinput_do_set_int_prop env ''Evdev Axes Swap'' 8 [int_of_bool b] =
     (HAVE_XI_PROP env \<and> intern_atom env ''Evdev Axes Swap'' \<noteq> 0,
      Set_int_prop ''Evdev Axes Swap'' 8 [int_of_bool b] #
      (if HAVE_XI_PROP env then
         XInternAtom ''Evdev Axes Swap'' #
         (if intern_atom env ''Evdev Axes Swap'' = 0
          then [Stderr (''invalid property '' @ ''Evdev Axes Swap'' @ nl)]
          else [XChangeDeviceProperty (intern_atom env ''Evdev Axes Swap'') 8
                  ((if b then 1 else 0) # replicate 7 0) 1])
       else []))"
  using set_int_prop_unfold [of "''Evdev Axes Swap''" "[int_of_bool b]" 8 env] swap_buffer [of b]
  by (simp add: isdigit_def)

lemma set_int_prop_inversion:
  "xinput_do_set_int_prop env ''Evdev Axis Inversion'' 8 [0, 0] =
     (HAVE_XI_PROP env \<and> intern_atom env ''Evdev Axis Inversion'' \<noteq> 0,
      Set_int_prop ''Evdev Axis Inversion'' 8 [0, 0] #
      (if HAVE_XI_PROP env then
         XInternAtom ''Evdev Axis Inversion'' #
         (if intern_atom env ''Evdev Axis Inversion'' = 0
          then [Stderr (''invalid property '' @ ''Evdev Axis Inversion'' @ nl)]
          else [XChangeDeviceProperty (intern_atom env ''Evdev Axis Inversion'') 8 (replicate 16 0) 2])
       else []))"
proof -
  have "fill 8 0 [0, 0] (replicate (length [0::cint, 0] * sizeof_long) 0) = Some (replicate 16 0)"
    by (simp add: sizeof_long_def store_c_def store_s_def le_bytes_def eval_nat_numeral upt_rec)
  then show ?thesis
    using set_int_prop_unfold [of "''Evdev Axis Inversion''" "[0, 0]" 8 env]
    by (simp add: isdigit_def)
qed

lemma set_int_prop_calibration:
  "xinput_do_set_int_prop env ''Evdev Axis Calibration'' 32 [a, b, c, d] =
     (HAVE_XI_PROP env \<and> intern_atom env ''Evdev Axis Calibration'' \<noteq> 0,
      Set_int_prop ''Evdev Axis Calibration'' 32 [a, b, c, d] #
      (if HAVE_XI_PROP env then
         XInternAtom ''Evdev Axis Calibration'' #
         (if intern_atom env ''Evdev Axis Calibration'' = 0
          then [Stderr (''invalid property '' @ ''Evdev Axis Calibration'' @ nl)]
          else [XChangeDeviceProperty (intern_atom env ''Evdev Axis Calibration'') 32
                  (concat (map (\<lambda>v. le_bytes sizeof_long (scast v :: clong)) [a, b, c, d])) 4])
       else []))"
  using set_int_prop_unfold [of "''Evdev Axis Calibration''" "[a, b, c, d]" 32 env]
    calibration_buffer [of a b c d]
  by (simp add: isdigit_def)

text \<open>The three setters: result, steps and requests.\<close>

lemma set_swapxy_result:
  "fst (set_swapxy this env (int_of_bool b)) = (HAVE_XI_PROP env \<and> intern_atom env ''Evdev Axes Swap'' \<noteq> 0)"
  by (simp add: set_swapxy_def set_int_prop_swap)

lemma set_invert_xy_result:
  "fst (set_invert_xy this env 0 0) = (HAVE_XI_PROP env \<and> intern_atom env ''Evdev Axis Inversion'' \<noteq> 0)"
  by (simp add: set_invert_xy_def set_int_prop_inversion)

lemma set_calibration_result:
  "fst (set_calibration this env a) = (HAVE_XI_PROP env \<and> intern_atom env ''Evdev Axis Calibration'' \<noteq> 0)"
  by (simp add: set_calibration_def set_int_prop_calibration)

lemma set_swapxy_steps:
  "filter step_event (snd (set_swapxy this env v)) = [Set_int_prop ''Evdev Axes Swap'' 8 [v]]"
  by (simp add: set_swapxy_def split_def set_int_prop_steps)

lemma set_invert_xy_steps:
  "filter step_event (snd (set_invert_xy this env v w)) = [Set_int_prop ''Evdev Axis Inversion'' 8 [v, w]]"
  by (simp add: set_invert_xy_def split_def set_int_prop_steps)

lemma set_calibration_steps:
  "filter step_event (snd (set_calibration this env a)) =
     [Set_int_prop ''Evdev Axis Calibration'' 32 [minv (x a), maxv (x a), minv (y a), maxv (y a)]]"
  by (simp add: set_calibration_def split_def set_int_prop_steps)

lemma set_swapxy_wire:
  "filter wire_event (snd (set_swapxy this env (int_of_bool b))) =
     (if HAVE_XI_PROP env \<and> intern_atom env ''Evdev Axes Swap'' \<noteq> 0
      then [XChangeDeviceProperty (intern_atom env ''Evdev Axes Swap'') 8 ((if b then 1 else 0) # replicate 7 0) 1]
      else [])"
  by (simp add: set_swapxy_def set_int_prop_swap)

lemma set_invert_xy_wire:
  "filter wire_event (snd (set_invert_xy this env 0 0)) =
     (if HAVE_XI_PROP env \<and> intern_atom env ''Evdev Axis Inversion'' \<noteq> 0
      then [XChangeDeviceProperty (intern_atom env ''Evdev Axis Inversion'') 8 (replicate 16 0) 2]
      else [])"
  by (simp add: set_invert_xy_def set_int_prop_inversion)

lemma set_calibration_wire:
  "filter wire_event (snd (set_calibration this env a)) =
     (if HAVE_XI_PROP env \<and> intern_atom env ''Evdev Axis Calibration'' \<noteq> 0
      then [XChangeDeviceProperty (intern_atom env ''Evdev Axis Calibration'') 32
              (concat (map (\<lambda>v. le_bytes sizeof_long (scast v :: clong))
                 [minv (x a), maxv (x a), minv (y a), maxv (y a)])) 4]
      else [])"
  by (simp add: set_calibration_def set_int_prop_calibration)

lemma apply_events:
  "snd (apply_axys this env new_axys) =
     Stdout (nl @ ''Doing dynamic recalibration:'' @ nl) #
     (if swap_xy (old_axys this) \<noteq> swap_xy new_axys
      then snd (set_swapxy this env (int_of_bool (swap_xy new_axys))) else []) @
     snd (set_invert_xy this env 0 0) @ snd (set_calibration this env new_axys) @ [XSync]"
  by (simp add: apply_axys_def split_def int_of_bool_def)

lemma apply_result:
  "fst (apply_axys this env new_axys) =
     ((if swap_xy (old_axys this) \<noteq> swap_xy new_axys
       then fst (set_swapxy this env (int_of_bool (swap_xy new_axys))) else True) \<and>
      fst (set_calibration this env new_axys))"
  by (simp add: apply_axys_def split_def)

text \<open>
  Claim C3. For every target calibration value, \<^verbatim>\<open>apply\<close> unconditionally attempts the
  write of the axis-inversion property as (false, false) and the write of the
  axis-calibration property with \<open>(x.min, x.max, y.min, y.max)\<close> of the target, in that
  order after the conditional swap write, and \<^verbatim>\<open>XSync\<close> is the last thing it does.
  On a build with property support whose server resolves the two property names, the
  requests on the wire are the same sequence: the inversion bytes are all zero and the
  calibration buffer holds the four values as \<^verbatim>\<open>long\<close>s.
\<close>

theorem apply_steps_in_order:
  "filter step_event (snd (apply_axys this env new_axys)) =
     (if swap_xy (old_axys this) \<noteq> swap_xy new_axys
      then [Set_int_prop ''Evdev Axes Swap'' 8 [int_of_bool (swap_xy new_axys)]] else []) @
     [Set_int_prop ''Evdev Axis Inversion'' 8 [0, 0],
      Set_int_prop ''Evdev Axis Calibration'' 32
        [minv (x new_axys), maxv (x new_axys), minv (y new_axys), maxv (y new_axys)],
      XSync] \<and>
   last (snd (apply_axys this env new_axys)) = XSync \<and>
   (HAVE_XI_PROP env \<and> intern_atom env ''Evdev Axis Inversion'' \<noteq> 0 \<and>
    intern_atom env ''Evdev Axis Calibration'' \<noteq> 0 \<longrightarrow>
    filter wire_event (snd (apply_axys this env new_axys)) =
      (if swap_xy (old_axys this) \<noteq> swap_xy new_axys \<and> intern_atom env ''Evdev Axes Swap'' \<noteq> 0
       then [XChangeDeviceProperty (intern_atom env ''Evdev Axes Swap'') 8
               ((if swap_xy new_axys then 1 else 0) # replicate 7 0) 1]
       else []) @
      [XChangeDeviceProperty (intern_atom env ''Evdev Axis Inversion'') 8 (replicate 16 0) 2,
       XChangeDeviceProperty (intern_atom env ''Evdev Axis Calibration'') 32
         (concat (map (\<lambda>v. le_bytes sizeof_long (scast v :: clong))
            [minv (x new_axys), maxv (x new_axys), minv (y new_axys), maxv (y new_axys)])) 4,
       XSync])"
proof (intro conjI impI)
  show "filter step_event (snd (apply_axys this env new_axys)) =
     (if swap_xy (old_axys this) \<noteq> swap_xy new_axys
      then [Set_int_prop ''Evdev Axes Swap'' 8 [int_of_bool (swap_xy new_axys)]] else []) @
     [Set_int_prop ''Evdev Axis Inversion'' 8 [0, 0],
      Set_int_prop ''Evdev Axis Calibration'' 32
        [minv (x new_axys), maxv (x new_axys), minv (y new_axys), maxv (y new_axys)],
      XSync]"
    by (simp add: apply_events set_swapxy_steps set_invert_xy_steps set_calibration_steps)
  show "last (snd (apply_axys this env new_axys)) = XSync"
    by (simp add: apply_events)
next
  assume "HAVE_XI_PROP env \<and> intern_atom env ''Evdev Axis Inversion'' \<noteq> 0 \<and>
    intern_atom env ''Evdev Axis Calibration'' \<noteq> 0"
  then show "filter wire_event (snd (apply_axys this env new_axys)) =
      (if swap_xy (old_axys this) \<noteq> swap_xy new_axys \<and> intern_atom env ''Evdev Axes Swap'' \<noteq> 0
       then [XChangeDeviceProperty (intern_atom env ''Evdev Axes Swap'') 8
               ((if swap_xy new_axys then 1 else 0) # replicate 7 0) 1]
       else []) @
      [XChangeDeviceProperty (intern_atom env ''Evdev Axis Inversion'') 8 (replicate 16 0) 2,
       XChangeDeviceProperty (intern_atom env ''Evdev Axis Calibration'') 32
         (concat (map (\<lambda>v. le_bytes sizeof_long (scast v :: clong))
            [minv (x new_axys), maxv (x new_axys), minv (y new_axys), maxv (y new_axys)])) 4,
       XSync]"
    by (simp add: apply_events set_swapxy_wire set_invert_xy_wire set_calibration_wire)
qed

theorem apply_steps_in_order_witness:
  "HAVE_XI_PROP env_ex \<and> intern_atom env_ex ''Evdev Axis Inversion'' \<noteq> 0 \<and>
   intern_atom env_ex ''Evdev Axis Calibration'' \<noteq> 0 \<and>
   filter step_event (snd (apply_axys this_ex env_ex axys_new)) =
     [Set_int_prop ''Evdev Axes Swap'' 8 [1],
      Set_int_prop ''Evdev Axis Inversion'' 8 [0, 0],
      Set_int_prop ''Evdev Axis Calibration'' 32 [100, 3900, 50, 4000],
      XSync] \<and>
   filter wire_event (snd (apply_axys this_ex env_ex axys_new)) =
     [XChangeDeviceProperty 261 8 (1 # replicate 7 0) 1,
      XChangeDeviceProperty 262 8 (replicate 16 0) 2,
      XChangeDeviceProperty 260 32
        [100, 0, 0, 0, 0, 0, 0, 0, 60, 15, 0, 0, 0, 0, 0, 0,
         50, 0, 0, 0, 0, 0, 0, 0, 160, 15, 0, 0, 0, 0, 0, 0] 4,
      XSync]"
  using apply_steps_in_order [of this_ex env_ex axys_new]
  by (simp add: env_ex_def atoms_ex_def this_ex_def axys_old_def axys_new_def int_of_bool_def
      le_bytes_long)

lemma set_swapxy_write_to:
  "filter (write_to n) (snd (set_swapxy this env v)) =
     (if ''Evdev Axes Swap'' = n then [Set_int_prop ''Evdev Axes Swap'' 8 [v]] else [])"
  by (simp add: set_swapxy_def split_def set_int_prop_write_to)

lemma set_invert_xy_write_to:
  "filter (write_to n) (snd (set_invert_xy this env v w)) =
     (if ''Evdev Axis Inversion'' = n then [Set_int_prop ''Evdev Axis Inversion'' 8 [v, w]] else [])"
  by (simp add: set_invert_xy_def split_def set_int_prop_write_to)

lemma set_calibration_write_to:
  "filter (write_to n) (snd (set_calibration this env a)) =
     (if ''Evdev Axis Calibration'' = n
      then [Set_int_prop ''Evdev Axis Calibration'' 32 [minv (x a), maxv (x a), minv (y a), maxv (y a)]]
      else [])"
  by (simp add: set_calibration_def split_def set_int_prop_write_to)

lemma set_swapxy_change_of:
  "filter (change_of a) (snd (set_swapxy this env (int_of_bool b))) =
     (if HAVE_XI_PROP env \<and> intern_atom env ''Evdev Axes Swap'' \<noteq> 0 \<and>
         intern_atom env ''Evdev Axes Swap'' = a
      then [XChangeDeviceProperty (intern_atom env ''Evdev Axes Swap'') 8 ((if b then 1 else 0) # replicate 7 0) 1]
      else [])"
  by (simp add: set_swapxy_def set_int_prop_swap)

lemma set_invert_xy_change_of:
  "intern_atom env ''Evdev Axis Inversion'' \<noteq> a \<Longrightarrow>
   filter (change_of a) (snd (set_invert_xy this env 0 0)) = []"
  by (simp add: set_invert_xy_def set_int_prop_inversion)

lemma set_calibration_change_of:
  "intern_atom env ''Evdev Axis Calibration'' \<noteq> a \<Longrightarrow>
   filter (change_of a) (snd (set_calibration this env c)) = []"
  by (simp add: set_calibration_def set_int_prop_calibration)

text \<open>
  Claim C2. For every pair of original and target calibration values, \<^verbatim>\<open>apply\<close> attempts
  a write of the axes-swap property if and only if \<open>swap_xy\<close> of the original (the held
  \<^verbatim>\<open>old_axys\<close>) differs from \<open>swap_xy\<close> of the target, and the value it writes is the
  target's \<open>swap_xy\<close>. On a build with property support whose server gives the swap
  property an atom of its own, the same holds of the requests that change that property:
  none when the flags agree, and one whose single transmitted byte is the target's flag
  when they differ.
\<close>

theorem apply_swap_write_iff:
  "filter (write_to ''Evdev Axes Swap'') (snd (apply_axys this env new_axys)) =
     (if swap_xy (old_axys this) \<noteq> swap_xy new_axys
      then [Set_int_prop ''Evdev Axes Swap'' 8 [int_of_bool (swap_xy new_axys)]] else []) \<and>
   (HAVE_XI_PROP env \<and> intern_atom env ''Evdev Axes Swap'' \<noteq> 0 \<and>
    intern_atom env ''Evdev Axis Inversion'' \<noteq> intern_atom env ''Evdev Axes Swap'' \<and>
    intern_atom env ''Evdev Axis Calibration'' \<noteq> intern_atom env ''Evdev Axes Swap'' \<longrightarrow>
    filter (change_of (intern_atom env ''Evdev Axes Swap'')) (snd (apply_axys this env new_axys)) =
      (if swap_xy (old_axys this) \<noteq> swap_xy new_axys
       then [XChangeDeviceProperty (intern_atom env ''Evdev Axes Swap'') 8
               ((if swap_xy new_axys then 1 else 0) # replicate 7 0) 1]
       else []))"
proof (intro conjI impI)
  show "filter (write_to ''Evdev Axes Swap'') (snd (apply_axys this env new_axys)) =
     (if swap_xy (old_axys this) \<noteq> swap_xy new_axys
      then [Set_int_prop ''Evdev Axes Swap'' 8 [int_of_bool (swap_xy new_axys)]] else [])"
    by (simp add: apply_events set_swapxy_write_to set_invert_xy_write_to set_calibration_write_to)
next
  assume "HAVE_XI_PROP env \<and> intern_atom env ''Evdev Axes Swap'' \<noteq> 0 \<and>
    intern_atom env ''Evdev Axis Inversion'' \<noteq> intern_atom env ''Evdev Axes Swap'' \<and>
    intern_atom env ''Evdev Axis Calibration'' \<noteq> intern_atom env ''Evdev Axes Swap''"
  then show "filter (change_of (intern_atom env ''Evdev Axes Swap'')) (snd (apply_axys this env new_axys)) =
      (if swap_xy (old_axys this) \<noteq> swap_xy new_axys
       then [XChangeDeviceProperty (intern_atom env ''Evdev Axes Swap'') 8
               ((if swap_xy new_axys then 1 else 0) # replicate 7 0) 1]
       else [])"
    by (simp add: apply_events set_swapxy_change_of set_invert_xy_change_of set_calibration_change_of)
qed

theorem apply_swap_write_iff_witness:
  "HAVE_XI_PROP env_ex \<and> intern_atom env_ex ''Evdev Axes Swap'' \<noteq> 0 \<and>
   intern_atom env_ex ''Evdev Axis Inversion'' \<noteq> intern_atom env_ex ''Evdev Axes Swap'' \<and>
   intern_atom env_ex ''Evdev Axis Calibration'' \<noteq> intern_atom env_ex ''Evdev Axes Swap'' \<and>
   filter (write_to ''Evdev Axes Swap'') (snd (apply_axys this_ex env_ex axys_new)) =
     [Set_int_prop ''Evdev Axes Swap'' 8 [1]] \<and>
   filter (change_of 261) (snd (apply_axys this_ex env_ex axys_new)) =
     [XChangeDeviceProperty 261 8 (1 # replicate 7 0) 1] \<and>
   filter (write_to ''Evdev Axes Swap'') (snd (apply_axys this_ex env_ex axys_old)) = [] \<and>
   filter (change_of 261) (snd (apply_axys this_ex env_ex axys_old)) = []"
  using apply_swap_write_iff [of this_ex env_ex axys_new] apply_swap_write_iff [of this_ex env_ex axys_old]
  by (simp add: env_ex_def atoms_ex_def this_ex_def axys_old_def axys_new_def int_of_bool_def)

text \<open>
  Claim C1 says that the result of \<^verbatim>\<open>apply\<close> is the conjunction of the results of all the
  sub-steps it performs. The code accumulates the swap write and the calibration write
  with \<^verbatim>\<open>success &=\<close> but calls \<^verbatim>\<open>set_invert_xy(false, false)\<close> as a statement. On the
  sample server whose \<^verbatim>\<open>XInternAtom\<close> fails for "Evdev Axis Inversion", the inversion
  write fails, the other two succeed, and \<^verbatim>\<open>apply\<close> returns true.
\<close>

theorem apply_ignores_inversion_failure:
  "fst (set_swapxy this_ex env_noinv (int_of_bool (swap_xy axys_new))) = True \<and>
   fst (set_invert_xy this_ex env_noinv 0 0) = False \<and>
   fst (set_calibration this_ex env_noinv axys_new) = True \<and>
   fst (apply_axys this_ex env_noinv axys_new) = True"
  by (simp add: apply_result set_swapxy_result set_invert_xy_result set_calibration_result
      env_noinv_def env_ex_def atoms_ex_def this_ex_def axys_old_def axys_new_def)

subsection \<open>Persistence and finish\_data\<close>

lemma embedsI: "Stdout (pre @ s @ post) \<in> set evs \<Longrightarrow> embeds s evs"
  unfolding embeds_def by blast

lemma output_results:
  "fst (output_xorgconfd this env a)" "fst (output_hal this env a)" "fst (output_xinput this env a)"
  by (simp_all add: output_xorgconfd_def output_hal_def output_xinput_def Let_def)

lemma xorgconfd_embeds:
  "embeds (four_values a) (snd (output_xorgconfd this env a))"
  "embeds (pd (int_of_bool (swap_xy a))) (snd (output_xorgconfd this env a))"
  "embeds (case sysfs_name env of None \<Rightarrow> placeholder | Some s \<Rightarrow> s) (snd (output_xorgconfd this env a))"
proof -
  show "embeds (four_values a) (snd (output_xorgconfd this env a))"
    by (rule embedsI [where pre = "tab @ ''Option'' @ tab @ dq @ ''Calibration'' @ dq @ tab @ dq"
          and post = "dq @ nl"]) (simp add: output_xorgconfd_def Let_def)
  show "embeds (pd (int_of_bool (swap_xy a))) (snd (output_xorgconfd this env a))"
    by (rule embedsI [where pre = "tab @ ''Option'' @ tab @ dq @ ''SwapAxes'' @ dq @ tab @ dq"
          and post = "dq @ nl"]) (simp add: output_xorgconfd_def Let_def)
  show "embeds (case sysfs_name env of None \<Rightarrow> placeholder | Some s \<Rightarrow> s) (snd (output_xorgconfd this env a))"
    by (rule embedsI [where pre = "tab @ ''MatchProduct'' @ tab @ dq" and post = "dq @ nl"])
       (simp add: output_xorgconfd_def Let_def)
qed

lemma hal_embeds:
  "embeds (four_values a) (snd (output_hal this env a))"
  "embeds (pd (int_of_bool (swap_xy a))) (snd (output_hal this env a))"
  "embeds (case sysfs_name env of None \<Rightarrow> placeholder | Some s \<Rightarrow> s) (snd (output_hal this env a))"
proof -
  let ?sysfs = "case sysfs_name env of None \<Rightarrow> placeholder | Some s \<Rightarrow> s"
  show "embeds (four_values a) (snd (output_hal this env a))"
    by (rule embedsI [where pre = "''  copy the policy below into '' @ sq @ ''/etc/hal/fdi/policy/touchscreen.fdi'' @ sq @ nl @
                   ''<match key='' @ dq @ ''info.product'' @ dq @ '' contains='' @ dq @ ?sysfs @ dq @ ''>'' @ nl @
                   ''  <merge key='' @ dq @ ''input.x11_options.calibration'' @ dq @ '' type='' @ dq @
                   ''string'' @ dq @ ''>''"
          and post = "''</merge>'' @ nl"]) (simp add: output_hal_def Let_def)
  show "embeds (pd (int_of_bool (swap_xy a))) (snd (output_hal this env a))"
    by (rule embedsI [where pre = "''  <merge key='' @ dq @ ''input.x11_options.swapaxes'' @ dq @ '' type='' @ dq @
                   ''string'' @ dq @ ''>''"
          and post = "''</merge>'' @ nl"]) (simp add: output_hal_def Let_def)
  show "embeds ?sysfs (snd (output_hal this env a))"
    by (rule embedsI [where pre = "''  copy the policy below into '' @ sq @ ''/etc/hal/fdi/policy/touchscreen.fdi'' @ sq @ nl @
                   ''<match key='' @ dq @ ''info.product'' @ dq @ '' contains='' @ dq"
          and post = "dq @ ''>'' @ nl @
                   ''  <merge key='' @ dq @ ''input.x11_options.calibration'' @ dq @ '' type='' @ dq @
                   ''string'' @ dq @ ''>'' @ four_values a @ ''</merge>'' @ nl"]) (simp add: output_hal_def Let_def)
qed


lemma strategy_cases:
  "strategy this env = output_xorgconfd \<or> strategy this env = output_hal \<or> strategy this env = output_xinput"
  by (simp add: strategy_def split: OutputType.splits)

lemma finish_data_supported:
  "supported (output_type this) \<Longrightarrow>
   finish_data this env a =
     (fst (apply_axys this env a) \<and> fst (strategy this env this env a),
      snd (apply_axys this env a) @ [banner] @ snd (strategy this env this env a))"
  by (simp add: finish_data_def strategy_def supported_def split_def split: OutputType.splits)


lemma strategy_result: "fst (strategy this env this env a)"
  using strategy_cases [of this env] output_results by auto




text \<open>
  Claim C10. For every target calibration value, each of the three persistence
  strategies returns true; when the hardware name cannot be determined
  (\<^verbatim>\<open>get_sysfs_name()\<close> is \<^verbatim>\<open>NULL\<close>) the config snippet and the policy snippet print the
  placeholder in its place; and for a supported output type the result of
  \<^verbatim>\<open>finish_data\<close> is the result of \<^verbatim>\<open>apply\<close>.
\<close>

theorem outputs_always_succeed:
  "fst (output_xorgconfd this env a) \<and> fst (output_hal this env a) \<and> fst (output_xinput this env a) \<and>
   (sysfs_name env = None \<longrightarrow>
      embeds placeholder (snd (output_xorgconfd this env a)) \<and>
      embeds placeholder (snd (output_hal this env a))) \<and>
   (supported (output_type this) \<longrightarrow> fst (finish_data this env a) = fst (apply_axys this env a))"
proof (intro conjI impI)
  assume "sysfs_name env = None"
  then show "embeds placeholder (snd (output_xorgconfd this env a))"
    and "embeds placeholder (snd (output_hal this env a))"
    using xorgconfd_embeds(3) [of env this a] hal_embeds(3) [of env this a] by simp_all
next
  assume "supported (output_type this)"
  then show "fst (finish_data this env a) = fst (apply_axys this env a)"
    by (simp add: finish_data_supported strategy_result)
qed (rule output_results)+

theorem outputs_always_succeed_witness:
  "sysfs_name env_nocal = None \<and> supported (output_type this_ex) \<and>
   fst (output_xorgconfd this_ex env_nocal axys_new) \<and> fst (output_hal this_ex env_nocal axys_new) \<and>
   fst (output_xinput this_ex env_nocal axys_new) \<and>
   embeds ''!!Name_Of_TouchScreen!!'' (snd (output_xorgconfd this_ex env_nocal axys_new)) \<and>
   embeds ''!!Name_Of_TouchScreen!!'' (snd (output_hal this_ex env_nocal axys_new)) \<and>
   fst (finish_data this_ex env_nocal axys_new) = fst (apply_axys this_ex env_nocal axys_new)"
proof -
  have 1: "sysfs_name env_nocal = None" by (simp add: env_nocal_def env_ex_def)
  have 2: "supported (output_type this_ex)" by (simp add: supported_def this_ex_def)
  show ?thesis
    using outputs_always_succeed [of this_ex env_nocal axys_new] 1 2
    by (simp add: placeholder_def)
qed

subsection \<open>detect\_axys\<close>

lemma parse_calibration [simp]:
  "xinput_parse_atom env ''Evdev Axis Calibration'' =
     (intern_atom env ''Evdev Axis Calibration'', [XInternAtom ''Evdev Axis Calibration''])"
  by (simp add: xinput_parse_atom_def isdigit_def)

lemma parse_swap [simp]:
  "xinput_parse_atom env ''Evdev Axes Swap'' = (intern_atom env ''Evdev Axes Swap'', [XInternAtom ''Evdev Axes Swap''])"
  by (simp add: xinput_parse_atom_def isdigit_def)

lemma parse_inversion [simp]:
  "xinput_parse_atom env ''Evdev Axis Inversion'' =
     (intern_atom env ''Evdev Axis Inversion'', [XInternAtom ''Evdev Axis Inversion''])"
  by (simp add: xinput_parse_atom_def isdigit_def)

lemma get_device_property_Some:
  "get_device_property env a len = Some r \<Longrightarrow> a \<noteq> 0"
  by (auto simp: get_device_property_def None_atom_def split: if_splits)

lemma detect_swap_quiet:
  "filter step_event (snd (detect_swap this env)) = []"
  "filter wire_event (snd (detect_swap this env)) = []"
  by (simp_all add: detect_swap_def Let_def split: option.splits prop_data.splits list.splits)

lemma detect_inversion_quiet:
  "filter step_event (snd (detect_inversion this env)) = []"
  "filter wire_event (snd (detect_inversion this env)) = []"
  by (simp_all add: detect_inversion_def Let_def split: option.splits prop_data.splits list.splits)

lemma detect_swap_keeps_ranges:
  "x (old_axys (fst (detect_swap this env))) = x (old_axys this)"
  "y (old_axys (fst (detect_swap this env))) = y (old_axys this)"
  by (simp_all add: detect_swap_def Let_def split: option.splits prop_data.splits list.splits)

lemma detect_axys_events:
  "detect_axys this env = Inr (this', evs) \<Longrightarrow>
   \<exists>t1 e1 rest. detect_calibration this env = Inr (t1, e1) \<and>
     evs = e1 @ snd (detect_swap t1 env) @ snd (detect_inversion (fst (detect_swap t1 env)) env) @ rest \<and>
     filter step_event rest = [] \<and> filter wire_event rest = [] \<and>
     this' = (fst (detect_inversion (fst (detect_swap t1 env)) env))
               \<lparr>orig_axys := old_axys (fst (detect_inversion (fst (detect_swap t1 env)) env))\<rparr>"
  by (auto simp: detect_axys_def split_def split: sum.splits)

lemma detect_calibration_unset:
  assumes "get_device_property env (intern_atom env ''Evdev Axis Calibration'') 1000 = Some r"
    and "act_type r = XA_INTEGER" and "prop_data r = Longs []"
  shows "\<exists>e1. detect_calibration this env = Inr (this, e1) \<and>
     filter step_event e1 = filter step_event (snd (set_calibration this env (old_axys this))) \<and>
     filter wire_event e1 = filter wire_event (snd (set_calibration this env (old_axys this)))"
  using assms by (simp add: detect_calibration_def split_def)

text \<open>
  Claim C7. When, during \<^verbatim>\<open>detect_axys\<close>, the read of the axis-calibration property
  succeeds with zero items of 32-bit integer format, exactly one write is attempted in
  the whole of \<^verbatim>\<open>detect_axys\<close>: that of the axis-calibration property, with the four
  values of the calibration held at entry; and \<^verbatim>\<open>detect_axys\<close> completes. On a build with
  property support the wire carries exactly one change request, with those four values.
\<close>

theorem detect_unset_calibration:
  assumes "get_device_property env (intern_atom env ''Evdev Axis Calibration'') 1000 = Some r"
    and "act_type r = XA_INTEGER" and "prop_data r = Longs []"
  shows "\<exists>this' evs. detect_axys this env = Inr (this', evs) \<and>
     filter step_event evs =
       [Set_int_prop ''Evdev Axis Calibration'' 32
          [minv (x (old_axys this)), maxv (x (old_axys this)),
           minv (y (old_axys this)), maxv (y (old_axys this))]] \<and>
     filter wire_event evs =
       (if HAVE_XI_PROP env
        then [XChangeDeviceProperty (intern_atom env ''Evdev Axis Calibration'') 32
                (concat (map (\<lambda>v. le_bytes sizeof_long (scast v :: clong))
                   [minv (x (old_axys this)), maxv (x (old_axys this)),
                    minv (y (old_axys this)), maxv (y (old_axys this))])) 4]
        else [])"
proof -
  obtain e1 where e1: "detect_calibration this env = Inr (this, e1)"
    and s1: "filter step_event e1 = filter step_event (snd (set_calibration this env (old_axys this)))"
    and w1: "filter wire_event e1 = filter wire_event (snd (set_calibration this env (old_axys this)))"
    using detect_calibration_unset [OF assms] by blast
  have atom: "intern_atom env ''Evdev Axis Calibration'' \<noteq> 0"
    using assms(1) by (rule get_device_property_Some)
  obtain this' evs where d: "detect_axys this env = Inr (this', evs)"
    using e1 by (simp add: detect_axys_def split_def)
  from detect_axys_events [OF d] e1 obtain rest where
    evs: "evs = e1 @ snd (detect_swap this env) @ snd (detect_inversion (fst (detect_swap this env)) env) @ rest"
    and rest: "filter step_event rest = []" "filter wire_event rest = []"
    by auto
  have "filter step_event evs =
       [Set_int_prop ''Evdev Axis Calibration'' 32
          [minv (x (old_axys this)), maxv (x (old_axys this)),
           minv (y (old_axys this)), maxv (y (old_axys this))]]"
    by (simp add: evs rest s1 detect_swap_quiet detect_inversion_quiet set_calibration_steps)
  moreover have "filter wire_event evs =
       (if HAVE_XI_PROP env
        then [XChangeDeviceProperty (intern_atom env ''Evdev Axis Calibration'') 32
                (concat (map (\<lambda>v. le_bytes sizeof_long (scast v :: clong))
                   [minv (x (old_axys this)), maxv (x (old_axys this)),
                    minv (y (old_axys this)), maxv (y (old_axys this))])) 4]
        else [])"
    using atom by (simp add: evs rest w1 detect_swap_quiet detect_inversion_quiet set_calibration_wire)
  ultimately show ?thesis using d by blast
qed

theorem detect_unset_calibration_witness:
  "get_device_property env_unset (intern_atom env_unset ''Evdev Axis Calibration'') 1000 =
     Some \<lparr>act_type = XA_INTEGER, prop_data = Longs []\<rparr> \<and>
   detect_axys this_ex env_unset \<noteq> Inl Read_past_buffer \<and>
   filter step_event (snd (projr (detect_axys this_ex env_unset))) =
     [Set_int_prop ''Evdev Axis Calibration'' 32 [0, 4095, 0, 4095]] \<and>
   filter wire_event (snd (projr (detect_axys this_ex env_unset))) =
     [XChangeDeviceProperty 260 32
        [0, 0, 0, 0, 0, 0, 0, 0, 255, 15, 0, 0, 0, 0, 0, 0,
         0, 0, 0, 0, 0, 0, 0, 0, 255, 15, 0, 0, 0, 0, 0, 0] 4]"
proof -
  have g: "get_device_property env_unset (intern_atom env_unset ''Evdev Axis Calibration'') 1000 =
     Some \<lparr>act_type = XA_INTEGER, prop_data = Longs []\<rparr>"
    by (simp add: get_device_property_def env_unset_def env_ex_def atoms_ex_def None_atom_def)
  from detect_unset_calibration [OF g, of this_ex]
  obtain this' evs where d: "detect_axys this_ex env_unset = Inr (this', evs)"
    and s: "filter step_event evs =
       [Set_int_prop ''Evdev Axis Calibration'' 32
          [minv (x (old_axys this_ex)), maxv (x (old_axys this_ex)),
           minv (y (old_axys this_ex)), maxv (y (old_axys this_ex))]]"
    and w: "filter wire_event evs =
       (if HAVE_XI_PROP env_unset
        then [XChangeDeviceProperty (intern_atom env_unset ''Evdev Axis Calibration'') 32
                (concat (map (\<lambda>v. le_bytes sizeof_long (scast v :: clong))
                   [minv (x (old_axys this_ex)), maxv (x (old_axys this_ex)),
                    minv (y (old_axys this_ex)), maxv (y (old_axys this_ex))])) 4]
        else [])"
    by auto
  have e: "snd (projr (detect_axys this_ex env_unset)) = evs"
    by (simp add: d)
  have c1: "detect_axys this_ex env_unset \<noteq> Inl Read_past_buffer"
    by (simp add: d)
  have c2: "filter step_event (snd (projr (detect_axys this_ex env_unset))) =
     [Set_int_prop ''Evdev Axis Calibration'' 32 [0, 4095, 0, 4095]]"
    unfolding e s by (simp add: this_ex_def axys_old_def)
  have c3: "filter wire_event (snd (projr (detect_axys this_ex env_unset))) =
     [XChangeDeviceProperty 260 32
        [0, 0, 0, 0, 0, 0, 0, 0, 255, 15, 0, 0, 0, 0, 0, 0,
         0, 0, 0, 0, 0, 0, 0, 0, 255, 15, 0, 0, 0, 0, 0, 0] 4]"
    unfolding e w
    by (simp add: env_unset_def env_ex_def atoms_ex_def this_ex_def axys_old_def le_bytes_long)
  from g c1 c2 c3 show ?thesis
    by (intro conjI)
qed

lemma detect_inversion_two:
  assumes "get_device_property env (intern_atom env ''Evdev Axis Inversion'') 1000 = Some r"
    and "act_type r = XA_INTEGER" and "prop_data r = Chars [c0, c1]"
  shows "old_axys (fst (detect_inversion t env)) =
     (old_axys t)\<lparr>x := (if c0 \<noteq> 0 then swap_min_max (x (old_axys t)) else x (old_axys t)),
                  y := (if c1 \<noteq> 0 then swap_min_max (y (old_axys t)) else y (old_axys t))\<rparr>"
  using assms by (simp add: detect_inversion_def Let_def)

lemma detect_calibration_decodes:
  assumes "get_device_property env (intern_atom env ''Evdev Axis Calibration'') 1000 = Some rc"
    and "act_type rc = XA_INTEGER" and "prop_data rc = Longs (l0 # l1 # l2 # l3 # ls)"
    and "detect_calibration this env = Inr (t1, e1)"
  shows "x (old_axys t1) = (x (old_axys this))\<lparr>minv := ucast l0, maxv := ucast l1\<rparr> \<and>
         y (old_axys t1) = (y (old_axys this))\<lparr>minv := ucast l2, maxv := ucast l3\<rparr>"
  using assms by (auto simp: detect_calibration_def Let_def)

lemma detect_inversion_integer:
  assumes "detect_axys this env = Inr (this', evs)"
    and "get_device_property env (intern_atom env ''Evdev Axis Inversion'') 1000 = Some r"
    and "act_type r = XA_INTEGER" and "prop_data r = Chars [c0, c1]"
  shows "\<exists>t1 e1 t2 e2.
      detect_calibration this env = Inr (t1, e1) \<and> detect_swap t1 env = (t2, e2) \<and>
      x (old_axys this') = (if c0 \<noteq> 0 then swap_min_max (x (old_axys t2)) else x (old_axys t2)) \<and>
      y (old_axys this') = (if c1 \<noteq> 0 then swap_min_max (y (old_axys t2)) else y (old_axys t2)) \<and>
      swap_xy (old_axys this') = swap_xy (old_axys t2) \<and>
      orig_axys this' = old_axys this' \<and>
      (\<forall>rc l0 l1 l2 l3 ls.
         get_device_property env (intern_atom env ''Evdev Axis Calibration'') 1000 = Some rc \<and>
         act_type rc = XA_INTEGER \<and> prop_data rc = Longs (l0 # l1 # l2 # l3 # ls) \<longrightarrow>
         minv (x (old_axys this')) = (if c0 \<noteq> 0 then ucast l1 else ucast l0) \<and>
         maxv (x (old_axys this')) = (if c0 \<noteq> 0 then ucast l0 else ucast l1) \<and>
         minv (y (old_axys this')) = (if c1 \<noteq> 0 then ucast l3 else ucast l2) \<and>
         maxv (y (old_axys this')) = (if c1 \<noteq> 0 then ucast l2 else ucast l3))"
proof -
  from detect_axys_events [OF assms(1)] obtain t1 e1 where
    c: "detect_calibration this env = Inr (t1, e1)"
    and t: "this' = (fst (detect_inversion (fst (detect_swap t1 env)) env))
               \<lparr>orig_axys := old_axys (fst (detect_inversion (fst (detect_swap t1 env)) env))\<rparr>"
    by blast
  obtain t2 e2 where s: "detect_swap t1 env = (t2, e2)"
    by (cases "detect_swap t1 env")
  have o: "old_axys this' =
     (old_axys t2)\<lparr>x := (if c0 \<noteq> 0 then swap_min_max (x (old_axys t2)) else x (old_axys t2)),
                   y := (if c1 \<noteq> 0 then swap_min_max (y (old_axys t2)) else y (old_axys t2))\<rparr>"
    using detect_inversion_two [OF assms(2-4), of t2] by (simp add: t s)
  have og: "orig_axys this' = old_axys this'"
    by (simp add: t)
  have r2: "x (old_axys t2) = x (old_axys t1)" "y (old_axys t2) = y (old_axys t1)"
    using detect_swap_keeps_ranges [of t1 env] by (simp_all add: s)
  have dec: "minv (x (old_axys this')) = (if c0 \<noteq> 0 then ucast l1 else ucast l0) \<and>
         maxv (x (old_axys this')) = (if c0 \<noteq> 0 then ucast l0 else ucast l1) \<and>
         minv (y (old_axys this')) = (if c1 \<noteq> 0 then ucast l3 else ucast l2) \<and>
         maxv (y (old_axys this')) = (if c1 \<noteq> 0 then ucast l2 else ucast l3)"
    if "get_device_property env (intern_atom env ''Evdev Axis Calibration'') 1000 = Some rc \<and>
         act_type rc = XA_INTEGER \<and> prop_data rc = Longs (l0 # l1 # l2 # l3 # ls)"
    for rc l0 l1 l2 l3 ls
    using detect_calibration_decodes [of env rc l0 l1 l2 l3 ls this t1 e1] that c
    by (simp add: o r2 swap_min_max_def)
  from dec have decall:
    "\<forall>rc l0 l1 l2 l3 ls.
         get_device_property env (intern_atom env ''Evdev Axis Calibration'') 1000 = Some rc \<and>
         act_type rc = XA_INTEGER \<and> prop_data rc = Longs (l0 # l1 # l2 # l3 # ls) \<longrightarrow>
         minv (x (old_axys this')) = (if c0 \<noteq> 0 then ucast l1 else ucast l0) \<and>
         maxv (x (old_axys this')) = (if c0 \<noteq> 0 then ucast l0 else ucast l1) \<and>
         minv (y (old_axys this')) = (if c1 \<noteq> 0 then ucast l3 else ucast l2) \<and>
         maxv (y (old_axys this')) = (if c1 \<noteq> 0 then ucast l2 else ucast l3)"
    by blast
  have xs: "x (old_axys this') = (if c0 \<noteq> 0 then swap_min_max (x (old_axys t2)) else x (old_axys t2))"
    and ys: "y (old_axys this') = (if c1 \<noteq> 0 then swap_min_max (y (old_axys t2)) else y (old_axys t2))"
    and sw: "swap_xy (old_axys this') = swap_xy (old_axys t2)"
    by (simp_all add: o)
  from c s xs ys sw og decall show ?thesis
    by blast
qed

lemma detect_axys_orig:
  "detect_axys this env = Inr (this', evs) \<Longrightarrow> orig_axys this' = old_axys this'"
  by (auto simp: detect_axys_def split_def split: sum.splits)

text \<open>
  Claim C8, amended. Whenever \<^verbatim>\<open>detect_axys\<close> completes, the resulting calibration value
  is stored in \<^verbatim>\<open>orig_axys\<close> as well as \<^verbatim>\<open>old_axys\<close>. If moreover the read of the
  axis-inversion property succeeded with exactly two 8-bit items \<open>c0\<close>, \<open>c1\<close> of type
  \<^verbatim>\<open>XA_INTEGER\<close>, then the range of the x axis held after the first two reads has its \<open>min\<close>
  and \<open>max\<close> exchanged if \<open>c0\<close> is set and is unchanged otherwise, likewise the y axis with
  \<open>c1\<close>, and the swap flag is untouched. In particular, when the calibration read had
  delivered four values, these are the values exchanged. (The calibration record has no
  inversion field.)
\<close>

theorem detect_folds_inversion:
  assumes "detect_axys this env = Inr (this', evs)"
  shows "orig_axys this' = old_axys this' \<and>
    (\<forall>r c0 c1.
       get_device_property env (intern_atom env ''Evdev Axis Inversion'') 1000 = Some r \<and>
       act_type r = XA_INTEGER \<and> prop_data r = Chars [c0, c1] \<longrightarrow>
       (\<exists>t1 e1 t2 e2.
          detect_calibration this env = Inr (t1, e1) \<and> detect_swap t1 env = (t2, e2) \<and>
          x (old_axys this') = (if c0 \<noteq> 0 then swap_min_max (x (old_axys t2)) else x (old_axys t2)) \<and>
          y (old_axys this') = (if c1 \<noteq> 0 then swap_min_max (y (old_axys t2)) else y (old_axys t2)) \<and>
          swap_xy (old_axys this') = swap_xy (old_axys t2) \<and>
          (\<forall>rc l0 l1 l2 l3 ls.
             get_device_property env (intern_atom env ''Evdev Axis Calibration'') 1000 = Some rc \<and>
             act_type rc = XA_INTEGER \<and> prop_data rc = Longs (l0 # l1 # l2 # l3 # ls) \<longrightarrow>
             minv (x (old_axys this')) = (if c0 \<noteq> 0 then ucast l1 else ucast l0) \<and>
             maxv (x (old_axys this')) = (if c0 \<noteq> 0 then ucast l0 else ucast l1) \<and>
             minv (y (old_axys this')) = (if c1 \<noteq> 0 then ucast l3 else ucast l2) \<and>
             maxv (y (old_axys this')) = (if c1 \<noteq> 0 then ucast l2 else ucast l3))))"
proof (intro conjI allI impI)
  show "orig_axys this' = old_axys this'"
    using assms by (rule detect_axys_orig)
next
  fix r c0 c1
  assume h: "get_device_property env (intern_atom env ''Evdev Axis Inversion'') 1000 = Some r \<and>
       act_type r = XA_INTEGER \<and> prop_data r = Chars [c0, c1]"
  from detect_inversion_integer [OF assms, of r c0 c1] h
  show "\<exists>t1 e1 t2 e2.
          detect_calibration this env = Inr (t1, e1) \<and> detect_swap t1 env = (t2, e2) \<and>
          x (old_axys this') = (if c0 \<noteq> 0 then swap_min_max (x (old_axys t2)) else x (old_axys t2)) \<and>
          y (old_axys this') = (if c1 \<noteq> 0 then swap_min_max (y (old_axys t2)) else y (old_axys t2)) \<and>
          swap_xy (old_axys this') = swap_xy (old_axys t2) \<and>
          (\<forall>rc l0 l1 l2 l3 ls.
             get_device_property env (intern_atom env ''Evdev Axis Calibration'') 1000 = Some rc \<and>
             act_type rc = XA_INTEGER \<and> prop_data rc = Longs (l0 # l1 # l2 # l3 # ls) \<longrightarrow>
             minv (x (old_axys this')) = (if c0 \<noteq> 0 then ucast l1 else ucast l0) \<and>
             maxv (x (old_axys this')) = (if c0 \<noteq> 0 then ucast l0 else ucast l1) \<and>
             minv (y (old_axys this')) = (if c1 \<noteq> 0 then ucast l3 else ucast l2) \<and>
             maxv (y (old_axys this')) = (if c1 \<noteq> 0 then ucast l2 else ucast l3))"
    by blast
qed

theorem detect_folds_inversion_witness:
  "detect_axys this_ex env_ex =
     Inr (this_ex\<lparr>old_axys := \<lparr>x = \<lparr>minv = 4095, maxv = 0\<rparr>, y = \<lparr>minv = 0, maxv = 4095\<rparr>, swap_xy = False\<rparr>,
                  orig_axys := \<lparr>x = \<lparr>minv = 4095, maxv = 0\<rparr>, y = \<lparr>minv = 0, maxv = 4095\<rparr>, swap_xy = False\<rparr>\<rparr>,
          snd (projr (detect_axys this_ex env_ex))) \<and>
   get_device_property env_ex (intern_atom env_ex ''Evdev Axis Inversion'') 1000 =
     Some \<lparr>act_type = XA_INTEGER, prop_data = Chars [1, 0]\<rparr> \<and>
   get_device_property env_ex (intern_atom env_ex ''Evdev Axis Calibration'') 1000 =
     Some \<lparr>act_type = XA_INTEGER, prop_data = Longs [0, 4095, 0, 4095]\<rparr> \<and>
   minv (x (old_axys (fst (projr (detect_axys this_ex env_ex))))) = 4095 \<and>
   maxv (x (old_axys (fst (projr (detect_axys this_ex env_ex))))) = 0 \<and>
   minv (y (old_axys (fst (projr (detect_axys this_ex env_ex))))) = 0 \<and>
   maxv (y (old_axys (fst (projr (detect_axys this_ex env_ex))))) = 4095 \<and>
   orig_axys (fst (projr (detect_axys this_ex env_ex))) = old_axys (fst (projr (detect_axys this_ex env_ex)))"
proof -
  have g1: "get_device_property env_ex (intern_atom env_ex ''Evdev Axis Inversion'') 1000 =
     Some \<lparr>act_type = XA_INTEGER, prop_data = Chars [1, 0]\<rparr>"
    by (simp add: get_device_property_def env_ex_def atoms_ex_def replies_ex_def None_atom_def)
  have g2: "get_device_property env_ex (intern_atom env_ex ''Evdev Axis Calibration'') 1000 =
     Some \<lparr>act_type = XA_INTEGER, prop_data = Longs [0, 4095, 0, 4095]\<rparr>"
    by (simp add: get_device_property_def env_ex_def atoms_ex_def replies_ex_def None_atom_def)
  have g3: "get_device_property env_ex (intern_atom env_ex ''Evdev Axes Swap'') 1000 =
     Some \<lparr>act_type = XA_INTEGER, prop_data = Chars [0]\<rparr>"
    by (simp add: get_device_property_def env_ex_def atoms_ex_def replies_ex_def None_atom_def)
  obtain t' e' where d: "detect_axys this_ex env_ex = Inr (t', e')"
    using g2 by (auto simp: detect_axys_def detect_calibration_def split_def Let_def)
  note th = detect_folds_inversion [OF d]
  from th have og: "orig_axys t' = old_axys t'"
    by blast
  from th g1 have "\<exists>t1 e1 t2 e2.
          detect_calibration this_ex env_ex = Inr (t1, e1) \<and> detect_swap t1 env_ex = (t2, e2) \<and>
          x (old_axys t') = (if (1::byte) \<noteq> 0 then swap_min_max (x (old_axys t2)) else x (old_axys t2)) \<and>
          y (old_axys t') = (if (0::byte) \<noteq> 0 then swap_min_max (y (old_axys t2)) else y (old_axys t2)) \<and>
          swap_xy (old_axys t') = swap_xy (old_axys t2) \<and>
          (\<forall>rc l0 l1 l2 l3 ls.
             get_device_property env_ex (intern_atom env_ex ''Evdev Axis Calibration'') 1000 = Some rc \<and>
             act_type rc = XA_INTEGER \<and> prop_data rc = Longs (l0 # l1 # l2 # l3 # ls) \<longrightarrow>
             minv (x (old_axys t')) = (if (1::byte) \<noteq> 0 then ucast l1 else ucast l0) \<and>
             maxv (x (old_axys t')) = (if (1::byte) \<noteq> 0 then ucast l0 else ucast l1) \<and>
             minv (y (old_axys t')) = (if (0::byte) \<noteq> 0 then ucast l3 else ucast l2) \<and>
             maxv (y (old_axys t')) = (if (0::byte) \<noteq> 0 then ucast l2 else ucast l3))"
    by simp
  with g2 have "minv (x (old_axys t')) = 4095 \<and> maxv (x (old_axys t')) = 0 \<and>
        minv (y (old_axys t')) = 0 \<and> maxv (y (old_axys t')) = 4095"
    by auto
  moreover have "swap_xy (old_axys t') = False \<and> device_name t' = device_name this_ex \<and>
      output_type t' = output_type this_ex \<and> verbose t' = verbose this_ex"
    using d g1 g2 g3
    by (auto simp: detect_axys_def detect_calibration_def detect_swap_def detect_inversion_def
        split_def Let_def this_ex_def axys_old_def)
  ultimately show ?thesis
    using d g1 g2 og by (simp add: this_ex_def axys_old_def)
qed

text \<open>
  Claim C8 as stated asks for the exchange whenever the read delivers two 8-bit items.
  The code also requires their type to be \<^verbatim>\<open>XA_INTEGER\<close>: on the sample server whose
  inversion property holds the two set flags with type 31, \<^verbatim>\<open>detect_axys\<close> completes
  and leaves both decoded ranges as read, \<open>(0, 4095)\<close>.
\<close>

theorem detect_keeps_ranges_for_other_type:
  "get_device_property env_strflags (intern_atom env_strflags ''Evdev Axis Inversion'') 1000 =
     Some \<lparr>act_type = 31, prop_data = Chars [1, 1]\<rparr> \<and>
   get_device_property env_strflags (intern_atom env_strflags ''Evdev Axis Calibration'') 1000 =
     Some \<lparr>act_type = XA_INTEGER, prop_data = Longs [0, 4095, 0, 4095]\<rparr> \<and>
   detect_axys this_ex env_strflags \<noteq> Inl Read_past_buffer \<and>
   x (old_axys (fst (projr (detect_axys this_ex env_strflags)))) = \<lparr>minv = 0, maxv = 4095\<rparr> \<and>
   y (old_axys (fst (projr (detect_axys this_ex env_strflags)))) = \<lparr>minv = 0, maxv = 4095\<rparr>"
  by (simp add: detect_axys_def detect_calibration_def detect_swap_def detect_inversion_def
      get_device_property_def env_strflags_def env_ex_def atoms_ex_def replies_ex_def
      None_atom_def XA_INTEGER_def this_ex_def axys_old_def Let_def)

subsection \<open>Device resolution\<close>

lemma find_loop_filter:
  "find_loop only_extended is_id ident name ds found =
     (let ms = (case found of None \<Rightarrow> [] | Some f \<Rightarrow> [f]) @
               filter (device_matches only_extended is_id ident name) ds
      in (the_only ms, if 2 \<le> length ms then [Stderr (multiple_warning name)] else []))"
proof (induction ds arbitrary: found)
  case Nil
  then show ?case by (simp add: the_only_def split: option.splits)
next
  case (Cons d ds)
  show ?case
  proof (cases "device_matches only_extended is_id ident name d")
    case True
    then show ?thesis
      using Cons.IH [of "Some d"]
      by (cases found) (simp_all add: the_only_def Let_def)
  next
    case False
    then show ?thesis
      using Cons.IH [of found] by simp
  qed
qed

lemma find_device_info_filter:
  "xinput_find_device_info env name only_extended =
     (the_only (filter (selects only_extended name) (input_devices env)),
      XListInputDevices #
      (if 2 \<le> length (filter (selects only_extended name) (input_devices env))
       then [Stderr (multiple_warning name)] else []))"
proof -
  have "device_matches only_extended (all_digits name)
          (if all_digits name then scast (atoi name) else - 1) name =
        selects only_extended name"
    by (auto simp: device_matches_def selects_def eligible_def fun_eq_iff)
  then show ?thesis
    by (simp add: xinput_find_device_info_def find_loop_filter Let_def)
qed

lemma the_only_two: "2 \<le> length ms \<Longrightarrow> the_only ms = None"
  by (cases ms rule: remdups_adj.cases) (simp_all add: the_only_def)

text \<open>
  Claim C5, amended. For every device identity string: if it consists only of digits it
  is converted to a number and only the ids of the devices are compared with it; if it
  contains a non-digit, only exact equality with the device names decides; the result is
  the device if exactly one is selected and none otherwise. When two or more devices
  carry a non-digit name, the constructor lists the devices, prints the
  multiple-devices warning, closes the display and throws "Unable to find device"
  without ever opening a device; when no device carries it, it does the same without the
  warning. The exception is the same in both cases.
\<close>

theorem device_resolution:
  "fst (xinput_find_device_info env name only_extended) =
     the_only (filter (\<lambda>d. eligible only_extended d \<and>
                           (if all_digits name then dev_id d = scast (atoi name) else dev_name d = name))
                 (input_devices env)) \<and>
   (display_ok env \<and> \<not> all_digits name \<and>
    2 \<le> length (filter (\<lambda>d. dev_name d = name) (input_devices env)) \<longrightarrow>
      CalibratorEvdev env name (- 1) =
        ([XOpenDisplay True, XListInputDevices, Stderr (multiple_warning name), XCloseDisplay],
         Inl (WrongCalibratorException ''Evdev: Unable to find device''))) \<and>
   (display_ok env \<and> \<not> all_digits name \<and>
    filter (\<lambda>d. dev_name d = name) (input_devices env) = [] \<longrightarrow>
      CalibratorEvdev env name (- 1) =
        ([XOpenDisplay True, XListInputDevices, XCloseDisplay],
         Inl (WrongCalibratorException ''Evdev: Unable to find device'')))"
proof (intro conjI impI)
  show "fst (xinput_find_device_info env name only_extended) =
     the_only (filter (\<lambda>d. eligible only_extended d \<and>
                           (if all_digits name then dev_id d = scast (atoi name) else dev_name d = name))
                 (input_devices env))"
    by (simp add: find_device_info_filter selects_def [abs_def])
next
  assume a: "display_ok env \<and> \<not> all_digits name \<and>
    2 \<le> length (filter (\<lambda>d. dev_name d = name) (input_devices env))"
  then have s: "selects False name = (\<lambda>d. dev_name d = name)"
    by (simp add: selects_def eligible_def fun_eq_iff)
  show "CalibratorEvdev env name (- 1) =
        ([XOpenDisplay True, XListInputDevices, Stderr (multiple_warning name), XCloseDisplay],
         Inl (WrongCalibratorException ''Evdev: Unable to find device''))"
    using a by (simp add: CalibratorEvdev_def find_device_info_filter s the_only_two)
next
  assume a: "display_ok env \<and> \<not> all_digits name \<and>
    filter (\<lambda>d. dev_name d = name) (input_devices env) = []"
  then have s: "selects False name = (\<lambda>d. dev_name d = name)"
    by (simp add: selects_def eligible_def fun_eq_iff)
  show "CalibratorEvdev env name (- 1) =
        ([XOpenDisplay True, XListInputDevices, XCloseDisplay],
         Inl (WrongCalibratorException ''Evdev: Unable to find device''))"
    using a by (simp add: CalibratorEvdev_def find_device_info_filter s the_only_def)
qed

lemma atoi_12: "atoi ''12'' = 12"
  by (simp add: atoi_def decimal_def)

theorem device_resolution_witness:
  "display_ok env_ex \<and> \<not> all_digits ''ts'' \<and> \<not> all_digits ''nope'' \<and> all_digits ''12'' \<and>
   2 \<le> length (filter (\<lambda>d. dev_name d = ''ts'') (input_devices env_ex)) \<and>
   filter (\<lambda>d. dev_name d = ''nope'') (input_devices env_ex) = [] \<and>
   CalibratorEvdev env_ex ''ts'' (- 1) =
     ([XOpenDisplay True, XListInputDevices, Stderr (multiple_warning ''ts''), XCloseDisplay],
      Inl (WrongCalibratorException ''Evdev: Unable to find device'')) \<and>
   CalibratorEvdev env_ex ''nope'' (- 1) =
     ([XOpenDisplay True, XListInputDevices, XCloseDisplay],
      Inl (WrongCalibratorException ''Evdev: Unable to find device'')) \<and>
   fst (xinput_find_device_info env_ex ''pen'' False) = Some \<lparr>dev_id = 11, dev_name = ''pen'', dev_use = 4\<rparr> \<and>
   fst (xinput_find_device_info env_ids ''12'' False) = Some \<lparr>dev_id = 12, dev_name = ''pen'', dev_use = 4\<rparr>"
proof -
  have e: "display_ok env_ex" "input_devices env_ex =
        [\<lparr>dev_id = 9, dev_name = ''ts'', dev_use = 4\<rparr>,
         \<lparr>dev_id = 10, dev_name = ''ts'', dev_use = 4\<rparr>,
         \<lparr>dev_id = 11, dev_name = ''pen'', dev_use = 4\<rparr>]"
    by (simp_all add: env_ex_def)
  have i: "input_devices env_ids =
      [\<lparr>dev_id = 5, dev_name = ''12'', dev_use = 4\<rparr>, \<lparr>dev_id = 12, dev_name = ''pen'', dev_use = 4\<rparr>]"
    by (simp add: env_ids_def)
  show ?thesis
    using device_resolution [of env_ex "''ts''" False] device_resolution [of env_ex "''nope''" False]
      device_resolution [of env_ex "''pen''" False] device_resolution [of env_ids "''12''" False]
    by (simp add: isdigit_def e i eligible_def the_only_def atoi_12)
qed

text \<open>
  Claim C5 as stated asks for an error on ambiguity that is distinct from the error on
  no match. On the sample server two devices are named "ts" and none "nope": both
  lookups return \<^verbatim>\<open>NULL\<close> and both constructions throw the same exception.
\<close>

theorem ambiguous_name_same_error:
  "length (filter (\<lambda>d. dev_name d = ''ts'') (input_devices env_ex)) = 2 \<and>
   filter (\<lambda>d. dev_name d = ''nope'') (input_devices env_ex) = [] \<and>
   fst (xinput_find_device_info env_ex ''ts'' False) = None \<and>
   fst (xinput_find_device_info env_ex ''nope'' False) = None \<and>
   snd (CalibratorEvdev env_ex ''ts'' (- 1)) = Inl (WrongCalibratorException ''Evdev: Unable to find device'') \<and>
   snd (CalibratorEvdev env_ex ''nope'' (- 1)) = Inl (WrongCalibratorException ''Evdev: Unable to find device'')"
  by (simp add: CalibratorEvdev_def find_device_info_filter selects_def eligible_def isdigit_def
      the_only_def env_ex_def)

subsection \<open>The constructor\<close>

lemma display_open_append: "display_open (es @ fs) b = display_open fs (display_open es b)"
  by (induction es b rule: display_open.induct) simp_all

lemma device_open_append: "device_open (es @ fs) b = device_open fs (device_open es b)"
  by (induction es b rule: device_open.induct) simp_all

lemma find_keeps_handles:
  "display_open (snd (xinput_find_device_info env name oe)) b = b"
  "device_open (snd (xinput_find_device_info env name oe)) b = b"
  by (simp_all add: find_device_info_filter)

lemma find_keeps_handles_rule:
  "xinput_find_device_info env name oe = (r, ef) \<Longrightarrow>
   \<forall>b. display_open ef b = b \<and> device_open ef b = b"
  using find_keeps_handles [of env name oe] by simp

lemma ctor_releases_with_xi_prop:
  assumes "HAVE_XI_PROP env" and "CalibratorEvdev env name ident = (tr, Inl e)"
  shows "\<not> display_open tr False \<and> \<not> device_open tr False"
  using assms
  by (auto simp: CalibratorEvdev_def display_open_append device_open_append
      dest: find_keeps_handles_rule
      split: if_splits prod.splits option.splits sum.splits)

lemma ctor_success_holds_both:
  assumes "CalibratorEvdev env name ident = (tr, Inr d)"
  shows "display_open tr False \<and> device_open tr False"
  using assms
  by (auto simp: CalibratorEvdev_def display_open_append device_open_append
      dest: find_keeps_handles_rule
      split: if_splits prod.splits option.splits sum.splits)

text \<open>
  Claim C9 says that every exit of the constructor that throws has released the device
  and the display. With \<^verbatim>\<open>HAVE_XI_PROP\<close> defined that is so
  (\<open>ctor_releases_with_xi_prop\<close>). Without it, the \<^verbatim>\<open>throw\<close> under \<^verbatim>\<open>#ifndef HAVE_XI_PROP\<close>
  comes after both handles were opened and closes neither.
\<close>

theorem ctor_leaks_without_xi_prop:
  "CalibratorEvdev env_noxi ''pen'' (- 1) =
     ([XOpenDisplay True, XListInputDevices, XOpenDevice 11 True],
      Inl (WrongCalibratorException
        ''Evdev: you need at least libXi 1.2 and inputproto 1.5 for dynamic recalibration of evdev.'')) \<and>
   display_open (fst (CalibratorEvdev env_noxi ''pen'' (- 1))) False \<and>
   device_open (fst (CalibratorEvdev env_noxi ''pen'' (- 1))) False"
proof -
  have "CalibratorEvdev env_noxi ''pen'' (- 1) =
     ([XOpenDisplay True, XListInputDevices, XOpenDevice 11 True],
      Inl (WrongCalibratorException
        ''Evdev: you need at least libXi 1.2 and inputproto 1.5 for dynamic recalibration of evdev.''))"
    by (simp add: CalibratorEvdev_def find_device_info_filter selects_def eligible_def isdigit_def
        the_only_def env_noxi_def env_ex_def)
  then show ?thesis by simp
qed

subsection \<open>The fall-through of the 8-bit case\<close>

text \<open>
  Claim C6 says that a write of width 8 applies no 16-bit stores to the buffer. In the
  code \<^verbatim>\<open>case 8\<close> runs into \<^verbatim>\<open>case 16\<close>: for the arguments \<open>(0, 1)\<close> the third byte of the
  buffer handed to \<^verbatim>\<open>XChangeDeviceProperty\<close> is 1, where 8-bit stores alone leave 0.
  (By \<open>fill_8_transmits\<close> the first \<^verbatim>\<open>argc\<close> bytes still are the truncated arguments on
  this little-endian machine.)
\<close>

theorem fill_8_falls_through:
  "fill 8 0 [0, 1] (replicate (2 * sizeof_long) 0) = Some ([0, 1, 1] @ replicate 13 0) \<and>
   fill_exclusive 8 0 [0, 1] (replicate (2 * sizeof_long) 0) = Some ([0, 1] @ replicate 14 0) \<and>
   filter wire_event (snd (set_invert_xy this_ex env_ex 0 1)) =
     [XChangeDeviceProperty 262 8 ([0, 1, 1] @ replicate 13 0) 2]"
proof -
  have r16: "replicate 16 (0::byte) = [0, 0, 0, 0, 0, 0, 0, 0, 0, 0, 0, 0, 0, 0, 0, 0]"
    by (simp add: numeral_eq_Suc)
  have r13: "replicate 13 (0::byte) = [0, 0, 0, 0, 0, 0, 0, 0, 0, 0, 0, 0, 0]"
    by (simp add: numeral_eq_Suc)
  have r14: "replicate 14 (0::byte) = [0, 0, 0, 0, 0, 0, 0, 0, 0, 0, 0, 0, 0, 0]"
    by (simp add: numeral_eq_Suc)
  have up2: "[0..<2] = [0, 1]" "[0..<1] = [0]"
    by (simp_all add: upt_rec)
  have f: "fill 8 0 [0, 1] (replicate (2 * sizeof_long) 0) = Some ([0, 1, 1] @ replicate 13 0)"
    by (simp add: sizeof_long_def r16 r13 store_c_def store_s_def le_bytes_def up2)
  have g: "fill_exclusive 8 0 [0, 1] (replicate (2 * sizeof_long) 0) = Some ([0, 1] @ replicate 14 0)"
    by (simp add: sizeof_long_def r16 r14 store_c_def le_bytes_def up2)
  have "xinput_do_set_int_prop env_ex ''Evdev Axis Inversion'' 8 [0, 1] =
      (True, [Set_int_prop ''Evdev Axis Inversion'' 8 [0, 1], XInternAtom ''Evdev Axis Inversion'',
              XChangeDeviceProperty 262 8 ([0, 1, 1] @ replicate 13 0) 2])"
    using set_int_prop_unfold [of "''Evdev Axis Inversion''" "[0, 1]" 8 env_ex] f
    by (simp add: isdigit_def env_ex_def atoms_ex_def sizeof_long_def)
  then have "filter wire_event (snd (set_invert_xy this_ex env_ex 0 1)) =
     [XChangeDeviceProperty 262 8 ([0, 1, 1] @ replicate 13 0) 2]"
    by (simp add: set_invert_xy_def this_ex_def)
  with f g show ?thesis by simp
qed

end
